theory Spec2Isabelle
  imports Main
begin

section \<open>Python values and exceptions\<close>

text \<open>
  The metadata the program passes around is what the Spotify API returned, decoded from
  JSON: dictionaries, lists, strings, numbers and \<open>None\<close>. A dictionary keeps its
  insertion order, so it is an association list.
\<close>

datatype json =
    JNull
  | JBool bool
  | JNum int
  | JStr string
  | JArr "json list"
  | JObj "(string \<times> json) list"

text \<open>
  A raised exception is a value: its class name and its message
  (\<open>exception.__class__.__name__\<close> and \<open>str(exception)\<close>).
\<close>

datatype py_exception = PyExc (exc_class: string) (exc_msg: string)

definition KeyError :: "string \<Rightarrow> py_exception" where
  "KeyError k = PyExc ''KeyError'' k"

definition TypeError :: "string \<Rightarrow> py_exception" where
  "TypeError m = PyExc ''TypeError'' m"

text \<open>\<open>d[k]\<close> on a dictionary held in an association list.\<close>

definition dict_get :: "(string \<times> 'v) list \<Rightarrow> string \<Rightarrow> py_exception + 'v" where
  "dict_get d k = (case map_of d k of None \<Rightarrow> Inl (KeyError k) | Some v \<Rightarrow> Inr v)"

text \<open>
  \<open>v[k]\<close> with a string key on a decoded JSON value: only a dictionary can be
  subscripted by a string, every other value raises \<open>TypeError\<close>.
\<close>

fun subscript :: "json \<Rightarrow> string \<Rightarrow> py_exception + json" where
  "subscript (JObj d) k = dict_get d k"
| "subscript v k = Inl (TypeError ''subscript'')"

text \<open>
  \<open>for x in v\<close>: a list yields its elements, a dictionary its keys, a string its
  characters; \<open>None\<close>, a number and a boolean are not iterable.
\<close>

fun iterate :: "json \<Rightarrow> py_exception + json list" where
  "iterate (JArr xs) = Inr xs"
| "iterate (JObj d) = Inr (map (\<lambda>kv. JStr (fst kv)) d)"
| "iterate (JStr s) = Inr (map (\<lambda>c. JStr [c]) s)"
| "iterate v = Inl (TypeError ''not iterable'')"

section \<open>search/songObj.py: the song object and its tracking-file payload\<close>

record SongObj =
  rawTrackMeta :: json
  rawAlbumMeta :: json
  rawArtistMeta :: json
  youtubeLink :: json
  lyrics :: json

text \<open>\<open>SongObj.get_data_dump\<close>: the five private fields under five keys.\<close>

definition get_data_dump :: "SongObj \<Rightarrow> (string \<times> json) list" where
  "get_data_dump s =
     [(''youtubeLink'', youtubeLink s),
      (''rawTrackMeta'', rawTrackMeta s),
      (''rawAlbumMeta'', rawAlbumMeta s),
      (''rawArtistMeta'', rawArtistMeta s),
      (''lyrics'', lyrics s)]"

text \<open>
  \<open>SongObj.from_dump\<close> (the class method). The artist metadata is read from the key
  \<open>'rawAlbumMeta'\<close>, as the source has it.
\<close>

definition SongObj_from_dump :: "(string \<times> json) list \<Rightarrow> py_exception + SongObj" where
  "SongObj_from_dump dataDump =
     (case dict_get dataDump ''rawTrackMeta'' of Inl e \<Rightarrow> Inl e | Inr tm \<Rightarrow>
     (case dict_get dataDump ''rawAlbumMeta'' of Inl e \<Rightarrow> Inl e | Inr am \<Rightarrow>
     (case dict_get dataDump ''rawAlbumMeta'' of Inl e \<Rightarrow> Inl e | Inr arm \<Rightarrow>
     (case dict_get dataDump ''youtubeLink'' of Inl e \<Rightarrow> Inl e | Inr yl \<Rightarrow>
     (case dict_get dataDump ''lyrics'' of Inl e \<Rightarrow> Inl e | Inr ly \<Rightarrow>
        Inr \<lparr>rawTrackMeta = tm, rawAlbumMeta = am, rawArtistMeta = arm,
             youtubeLink = yl, lyrics = ly\<rparr>)))))"

text \<open>\<open>songGatherer.from_dump\<close>: the same five reads, then the plain constructor.\<close>

definition from_dump :: "(string \<times> json) list \<Rightarrow> py_exception + SongObj" where
  "from_dump dataDump =
     (case dict_get dataDump ''rawTrackMeta'' of Inl e \<Rightarrow> Inl e | Inr tm \<Rightarrow>
     (case dict_get dataDump ''rawAlbumMeta'' of Inl e \<Rightarrow> Inl e | Inr am \<Rightarrow>
     (case dict_get dataDump ''rawAlbumMeta'' of Inl e \<Rightarrow> Inl e | Inr arm \<Rightarrow>
     (case dict_get dataDump ''youtubeLink'' of Inl e \<Rightarrow> Inl e | Inr yl \<Rightarrow>
     (case dict_get dataDump ''lyrics'' of Inl e \<Rightarrow> Inl e | Inr ly \<Rightarrow>
        Inr \<lparr>rawTrackMeta = tm, rawAlbumMeta = am, rawArtistMeta = arm,
             youtubeLink = yl, lyrics = ly\<rparr>)))))"

text \<open>\<open>get_song_name\<close>: \<open>self.__rawTrackMeta['name']\<close>.\<close>

definition get_song_name :: "SongObj \<Rightarrow> py_exception + json" where
  "get_song_name s = subscript (rawTrackMeta s) ''name''"

text \<open>
  The loop of \<open>get_contributing_artists\<close>: \<open>artist['name']\<close> is appended for each
  artist in turn, and the first failing subscript ends the loop with its exception.
\<close>

fun artist_names :: "json list \<Rightarrow> json list \<Rightarrow> py_exception + json list" where
  "artist_names [] contributingArtists = Inr contributingArtists"
| "artist_names (artist # rest) contributingArtists =
     (case subscript artist ''name'' of
        Inl e \<Rightarrow> Inl e
      | Inr n \<Rightarrow> artist_names rest (contributingArtists @ [n]))"

definition get_contributing_artists :: "SongObj \<Rightarrow> py_exception + json list" where
  "get_contributing_artists s =
     (case subscript (rawTrackMeta s) ''artists'' of
        Inl e \<Rightarrow> Inl e
      | Inr arts \<Rightarrow>
          (case iterate arts of
             Inl e \<Rightarrow> Inl e
           | Inr xs \<Rightarrow> artist_names xs []))"

text \<open>
  The identifier of a track is the \<open>'id'\<close> of its track metadata: the gatherers build
  the track's URL as \<open>"https://open.spotify.com/track/" + track["id"]\<close>.
\<close>

definition track_id :: "SongObj \<Rightarrow> py_exception + json" where
  "track_id s = subscript (rawTrackMeta s) ''id''"

section \<open>Properties of the tracking-file payload\<close>

lemma from_dump_get_data_dump:
  "from_dump (get_data_dump s) = Inr (s\<lparr>rawArtistMeta := rawAlbumMeta s\<rparr>)"
  by (simp add: from_dump_def get_data_dump_def dict_get_def)

lemma SongObj_from_dump_get_data_dump:
  "SongObj_from_dump (get_data_dump s) = Inr (s\<lparr>rawArtistMeta := rawAlbumMeta s\<rparr>)"
  by (simp add: SongObj_from_dump_def get_data_dump_def dict_get_def)

text \<open>
  C9. A song object rebuilt by \<open>from_dump\<close> (the class method or the gatherer's function)
  from the dictionary that \<open>get_data_dump\<close> produced exists (no key is missing) and has
  the same track metadata as the original, hence the same identifier, the same song
  name and the same list of contributing artists; where one of these getters raises on
  the original it raises the same exception on the rebuilt object.
\<close>

theorem from_dump_roundtrip:
  "\<exists>s'. SongObj_from_dump (get_data_dump s) = Inr s' \<and>
        from_dump (get_data_dump s) = Inr s' \<and>
        rawTrackMeta s' = rawTrackMeta s \<and>
        track_id s' = track_id s \<and>
        get_song_name s' = get_song_name s \<and>
        get_contributing_artists s' = get_contributing_artists s"
  by (simp add: from_dump_get_data_dump SongObj_from_dump_get_data_dump
      track_id_def get_song_name_def get_contributing_artists_def)

section \<open>download/downloader.py: data\<close>

text \<open>
  A \<open>Song\<close> as the downloader uses it: the name is \<open>None\<close> on a placeholder, the
  download URL and the lyrics are filled in by the pipeline. The class itself lives in
  \<open>spotdl.types\<close>; these are the attributes \<open>search_and_download\<close> reads and writes.
\<close>

record Song =
  name :: "string option"
  url :: string
  artists :: "string list"
  artist :: string
  download_url :: "string option"
  song_lyrics :: "string option"

text \<open>
  Paths are absolute, normalised POSIX paths written as strings, so \<open>Path.absolute()\<close>
  is the identity and two paths are the same file exactly when they are equal. The file
  system maps the path of every existing regular file to its modification time and
  content.
\<close>

type_synonym path = string

datatype content = Text string | JsonDoc json

record disk_file =
  st_mtime :: int
  data :: content

type_synonym filesystem = "path \<Rightarrow> disk_file option"

text \<open>
  What the pipeline asks of its collaborators and tells the progress tracker, in the
  order it happens. Lines that are only printed (\<open>progress_handler.log\<close>, \<open>debug\<close>,
  \<open>error\<close>) are not recorded.
\<close>

datatype event =
    SetSongCount nat
  | Reinit Song
  | GetLyrics "string option" "string list"
  | AudioSearch Song
  | Fetch string
  | Transcode path path "string option"
  | SponsorBlock
  | ModifyChapters
  | Embed path Song
  | NotifyDownloadSkip
  | NotifyDownloadComplete
  | NotifyConversionComplete
  | NotifyComplete
  | NotifyError py_exception

text \<open>
  The state the units of work share: the disk, and the downloader's \<open>known_songs\<close>,
  \<open>errors\<close> and \<open>url_archive\<close>.
\<close>

record world =
  files :: filesystem
  known_songs :: "string \<Rightarrow> path list option"
  errors :: "string list"
  url_archive :: "string set"
  trace :: "event list"

record settings =
  output_template :: string
  format :: string
  restrict :: bool
  overwrite :: string
  bitrate :: "string option"
  sponsor_block :: bool
  playlist_numbering :: bool
  archive :: "string option"
  save_file :: "string option"
  m3u :: "string option"
  print_errors :: bool
  threads :: nat

text \<open>The dictionary yt-dlp returns for a download, with the keys the pipeline reads.\<close>

record download_info =
  info_id :: string
  ext :: string
  abr :: nat
  filepath :: "string option"
  sponsorblock_chapters :: "json list"

type_synonym 'a io = "filesystem \<Rightarrow> (py_exception + 'a) \<times> filesystem"

text \<open>
  The collaborators, which live outside this module: each is a parameter. One that touches
  the disk takes the file system and returns it; one that can raise returns a sum.
  \<open>denied\<close> holds the paths on which the operating system refuses \<open>unlink\<close>,
  \<open>replace\<close> and \<open>open(..., "w")\<close>; \<open>mkdir_parent\<close> is its answer to
  \<open>output_file.parent.mkdir(parents=True, exist_ok=True)\<close>; \<open>now\<close> is the formatted
  \<open>datetime.datetime.now()\<close> and \<open>clock\<close> the modification time given to a file
  written now.
\<close>

record env =
  reinit_song :: "Song \<Rightarrow> bool \<Rightarrow> py_exception + Song"
  lyrics_providers :: "(string option \<Rightarrow> string list \<Rightarrow> py_exception + string option) list"
  display_name :: "Song \<Rightarrow> string"
  song_json :: "Song \<Rightarrow> json"
  create_file_name :: "Song \<Rightarrow> string \<Rightarrow> string \<Rightarrow> py_exception + path"
  restrict_filename :: "path \<Rightarrow> path"
  get_temp_path :: path
  get_errors_path :: path
  now :: string
  clock :: int
  denied :: "path \<Rightarrow> bool"
  mkdir_parent :: "path \<Rightarrow> py_exception option"
  audio_providers :: "(Song \<Rightarrow> py_exception + string option) list"
  get_download_metadata :: "string \<Rightarrow> (download_info option) io"
  convert :: "path \<Rightarrow> path \<Rightarrow> string option \<Rightarrow> (bool \<times> (string \<times> string) list option) io"
  sponsorblock_run :: "download_info \<Rightarrow> download_info io"
  modify_chapters_run :: "download_info \<Rightarrow> (path list \<times> download_info) io"
  embed_metadata :: "path \<Rightarrow> Song \<Rightarrow> unit io"
  archive_save :: "string set \<Rightarrow> string \<Rightarrow> unit io"
  gen_m3u_files :: "Song list \<Rightarrow> string \<Rightarrow> string \<Rightarrow> string \<Rightarrow> unit io"

section \<open>Python and pathlib helpers\<close>

text \<open>Truthiness of an \<open>Optional[str]\<close>: \<open>None\<close> and the empty string are false.\<close>

definition truthy :: "string option \<Rightarrow> bool" where
  "truthy v = (case v of None \<Rightarrow> False | Some s \<Rightarrow> s \<noteq> [])"

definition emit :: "event \<Rightarrow> world \<Rightarrow> world" where
  "emit e w = w\<lparr>trace := trace w @ [e]\<rparr>"

definition path_exists :: "world \<Rightarrow> path \<Rightarrow> bool" where
  "path_exists w p = (files w p \<noteq> None)"

text \<open>\<open>Path.stat().st_mtime\<close>.\<close>

definition stat_mtime :: "world \<Rightarrow> path \<Rightarrow> py_exception + int" where
  "stat_mtime w p =
     (case files w p of
        None \<Rightarrow> Inl (PyExc ''FileNotFoundError'' p)
      | Some f \<Rightarrow> Inr (st_mtime f))"

text \<open>
  \<open>Path.unlink()\<close>: a missing file raises \<open>FileNotFoundError\<close>, a refusal of the
  operating system \<open>PermissionError\<close>; both are \<open>OSError\<close>s.
\<close>

definition unlink :: "env \<Rightarrow> path \<Rightarrow> world \<Rightarrow> (py_exception + unit) \<times> world" where
  "unlink env p w =
     (if files w p = None then (Inl (PyExc ''FileNotFoundError'' p), w)
      else if denied env p then (Inl (PyExc ''PermissionError'' p), w)
      else (Inr (), w\<lparr>files := (files w)(p := None)\<rparr>))"

text \<open>\<open>Path.replace(target)\<close>: the file moves, overwriting what was at the target.\<close>

definition replace_path :: "env \<Rightarrow> path \<Rightarrow> path \<Rightarrow> world \<Rightarrow> (py_exception + unit) \<times> world" where
  "replace_path env src target w =
     (case files w src of
        None \<Rightarrow> (Inl (PyExc ''FileNotFoundError'' src), w)
      | Some f \<Rightarrow>
          if denied env src \<or> denied env target then (Inl (PyExc ''PermissionError'' src), w)
          else (Inr (), w\<lparr>files := ((files w)(src := None))(target \<mapsto> f)\<rparr>))"

text \<open>\<open>with open(p, "w") as f: f.write(c)\<close>.\<close>

definition write_file :: "env \<Rightarrow> path \<Rightarrow> content \<Rightarrow> world \<Rightarrow> (py_exception + unit) \<times> world" where
  "write_file env p c w =
     (if denied env p then (Inl (PyExc ''PermissionError'' p), w)
      else (Inr (), w\<lparr>files := (files w)(p \<mapsto> \<lparr>st_mtime = clock env, data = c\<rparr>)\<rparr>))"

text \<open>Running a collaborator that works on the disk.\<close>

definition run_io :: "'a io \<Rightarrow> world \<Rightarrow> (py_exception + 'a) \<times> world" where
  "run_io act w = (case act (files w) of (r, fs) \<Rightarrow> (r, w\<lparr>files := fs\<rparr>))"

text \<open>
  \<open>PurePath.name\<close>, \<open>suffix\<close> and \<open>with_suffix\<close>: the name is what follows the last
  separator; the suffix starts at the last dot of the name, unless that dot is the
  first or the last character of the name.
\<close>

definition path_name :: "path \<Rightarrow> string" where
  "path_name p = rev (takeWhile (\<lambda>c. c \<noteq> CHR ''/'') (rev p))"

definition path_suffix :: "path \<Rightarrow> string" where
  "path_suffix p =
     (let nm = path_name p;
          tail = rev (takeWhile (\<lambda>c. c \<noteq> CHR ''.'') (rev nm))
      in if CHR ''.'' \<in> set nm \<and> tail \<noteq> [] \<and> length tail + 1 < length nm
         then CHR ''.'' # tail else [])"

definition with_suffix :: "path \<Rightarrow> string \<Rightarrow> py_exception + path" where
  "with_suffix p suffix =
     (if CHR ''/'' \<in> set suffix then Inl (PyExc ''ValueError'' suffix)
      else if (suffix \<noteq> [] \<and> hd suffix \<noteq> CHR ''.'') \<or> suffix = ''.''
        then Inl (PyExc ''ValueError'' suffix)
      else if path_name p = [] then Inl (PyExc ''ValueError'' p)
      else Inr (take (length p - length (path_suffix p)) p @ suffix))"

text \<open>
  \<open>str.strip()\<close>. A character of the model is a code point below 256; these are the
  ones among them that \<open>str.isspace\<close> accepts: tab to carriage return, the four
  separators \<open>0x1C\<close> to \<open>0x1F\<close>, the space, next line and the no-break space.
\<close>

definition is_space :: "char \<Rightarrow> bool" where
  "is_space c =
     (c \<in> set [CHR 0x09, CHR 0x0A, CHR 0x0B, CHR 0x0C, CHR 0x0D,
                CHR 0x1C, CHR 0x1D, CHR 0x1E, CHR 0x1F, CHR '' '', CHR 0x85, CHR 0xA0])"

definition strip :: "string \<Rightarrow> string" where
  "strip s = rev (dropWhile is_space (rev (dropWhile is_space s)))"

text \<open>\<open>str(n)\<close> for a natural number.\<close>

fun str_nat :: "nat \<Rightarrow> string" where
  "str_nat n =
     (if n < 10 then [''0123456789'' ! n]
      else str_nat (n div 10) @ [''0123456789'' ! (n mod 10)])"

section \<open>download/downloader.py: the per-track pipeline\<close>

text \<open>
  \<open>Downloader.search_lyrics\<close>: the providers are asked in order, the first truthy answer
  wins, and an exception of a provider is not caught.
\<close>

fun lyrics_loop ::
  "(string option \<Rightarrow> string list \<Rightarrow> py_exception + string option) list \<Rightarrow> Song \<Rightarrow> world
     \<Rightarrow> (py_exception + string option) \<times> world" where
  "lyrics_loop [] song w = (Inr None, w)"
| "lyrics_loop (lyrics_provider # rest) song w =
     (let w1 = emit (GetLyrics (name song) (artists song)) w in
      case lyrics_provider (name song) (artists song) of
        Inl e \<Rightarrow> (Inl e, w1)
      | Inr found \<Rightarrow>
          if truthy found then (Inr found, w1) else lyrics_loop rest song w1)"

definition search_lyrics :: "env \<Rightarrow> Song \<Rightarrow> world \<Rightarrow> (py_exception + string option) \<times> world" where
  "search_lyrics env song w = lyrics_loop (lyrics_providers env) song w"

text \<open>
  \<open>Downloader.search\<close>: the audio providers in order, the first truthy URL wins, and
  \<open>LookupError\<close> when none has one.
\<close>

fun search_loop ::
  "(Song \<Rightarrow> py_exception + string option) list \<Rightarrow> env \<Rightarrow> Song \<Rightarrow> world
     \<Rightarrow> (py_exception + string) \<times> world" where
  "search_loop [] env song w =
     (Inl (PyExc ''LookupError'' (''No results found for song: '' @ display_name env song)), w)"
| "search_loop (audio_provider # rest) env song w =
     (let w1 = emit (AudioSearch song) w in
      case audio_provider song of
        Inl e \<Rightarrow> (Inl e, w1)
      | Inr found \<Rightarrow>
          (case found of
             None \<Rightarrow> search_loop rest env song w1
           | Some u \<Rightarrow> if u \<noteq> [] then (Inr u, w1) else search_loop rest env song w1))"

definition search :: "env \<Rightarrow> Song \<Rightarrow> world \<Rightarrow> (py_exception + string) \<times> world" where
  "search env song w = search_loop (audio_providers env) env song w"

text \<open>
  Lines 352 to 389 of \<open>search_and_download\<close>: a placeholder is re-resolved, the lyrics
  are looked up and stored, the output path is computed, and the duplicate candidates
  are the known paths of the song's URL that differ from the output path and exist now.
\<close>

definition prepare ::
  "env \<Rightarrow> settings \<Rightarrow> Song \<Rightarrow> world \<Rightarrow> (py_exception + Song \<times> path \<times> path list) \<times> world" where
  "prepare env cfg song0 w0 =
     (case (if name song0 = None \<and> url song0 \<noteq> []
            then (reinit_song env song0 (playlist_numbering cfg), emit (Reinit song0) w0)
            else (Inr song0, w0)) of
        (Inl e, w1) \<Rightarrow> (Inl e, w1)
      | (Inr song1, w1) \<Rightarrow>
          (case search_lyrics env song1 w1 of
             (Inl e, w2) \<Rightarrow> (Inl e, w2)
           | (Inr found, w2) \<Rightarrow>
               (let song = (case found of None \<Rightarrow> song1
                            | Some l \<Rightarrow> song1\<lparr>song_lyrics := Some l\<rparr>)
                in case create_file_name env song (output_template cfg) (format cfg) of
                     Inl e \<Rightarrow> (Inl e, w2)
                   | Inr named \<Rightarrow>
                       (let output_file =
                              (if restrict cfg then restrict_filename env named else named);
                            dup_song_paths =
                              filter (\<lambda>p. p \<noteq> output_file \<and> path_exists w2 p)
                                (case known_songs w2 (url song) of None \<Rightarrow> [] | Some ps \<Rightarrow> ps)
                        in (Inr (song, output_file, dup_song_paths), w2)))))"

text \<open>
  \<open>try: p.unlink() except (PermissionError, OSError): debug(...)\<close>. Every exception of
  \<open>unlink\<close> is an \<open>OSError\<close>, so the handler swallows it.
\<close>

definition try_unlink :: "env \<Rightarrow> path \<Rightarrow> world \<Rightarrow> world" where
  "try_unlink env p w = (case unlink env p w of (Inl e, w1) \<Rightarrow> w1 | (Inr u, w1) \<Rightarrow> w1)"

text \<open>The loop of the \<open>force\<close> branch.\<close>

fun remove_duplicates :: "env \<Rightarrow> path list \<Rightarrow> world \<Rightarrow> world" where
  "remove_duplicates env [] w = w"
| "remove_duplicates env (dup_song_path # rest) w =
     remove_duplicates env rest (try_unlink env dup_song_path w)"

text \<open>
  \<open>max(dup_song_paths, key=lambda p: p.stat().st_mtime)\<close>: the keys are computed in
  order, and the first path with the greatest key is kept.
\<close>

fun max_mtime :: "world \<Rightarrow> path \<times> int \<Rightarrow> path list \<Rightarrow> py_exception + path" where
  "max_mtime w (best, t) [] = Inr best"
| "max_mtime w (best, t) (p # ps) =
     (case stat_mtime w p of
        Inl e \<Rightarrow> Inl e
      | Inr t' \<Rightarrow> max_mtime w (if t < t' then (p, t') else (best, t)) ps)"

definition most_recent :: "world \<Rightarrow> path list \<Rightarrow> py_exception + path" where
  "most_recent w ps =
     (case ps of
        [] \<Rightarrow> Inl (PyExc ''ValueError'' ''max() arg is an empty sequence'')
      | p # rest \<Rightarrow>
          (case stat_mtime w p of
             Inl e \<Rightarrow> Inl e
           | Inr t \<Rightarrow> max_mtime w (p, t) rest))"

text \<open>The loop of the \<open>metadata\<close> branch: every duplicate but the kept one is unlinked.\<close>

fun remove_others :: "env \<Rightarrow> path \<Rightarrow> path list \<Rightarrow> world \<Rightarrow> world" where
  "remove_others env most_recent_duplicate [] w = w"
| "remove_others env most_recent_duplicate (old_song_path # rest) w =
     (if most_recent_duplicate = old_song_path
      then remove_others env most_recent_duplicate rest w
      else remove_others env most_recent_duplicate rest (try_unlink env old_song_path w))"

text \<open>A call of \<open>embed_metadata\<close>.\<close>

definition embed :: "env \<Rightarrow> path \<Rightarrow> Song \<Rightarrow> world \<Rightarrow> (py_exception + unit) \<times> world" where
  "embed env output_file song w =
     run_io (embed_metadata env output_file song) (emit (Embed output_file song) w)"

text \<open>
  Lines 434 to 461 of the \<open>metadata\<close> branch: with duplicates, the most recent one
  is kept, the others are unlinked, and the kept one is moved to the output path with
  the suffix of the format. Only the unlinks of the loop are inside a \<open>try\<close>.
\<close>

definition reconcile_duplicates ::
  "env \<Rightarrow> settings \<Rightarrow> path \<Rightarrow> path list \<Rightarrow> world \<Rightarrow> (py_exception + unit) \<times> world" where
  "reconcile_duplicates env cfg output_file dup_song_paths w =
     (if dup_song_paths \<noteq> [] then
        (case most_recent w dup_song_paths of
           Inl e \<Rightarrow> (Inl e, w)
         | Inr most_recent_duplicate \<Rightarrow>
             (let w1 = remove_others env most_recent_duplicate dup_song_paths w in
              case with_suffix output_file (''.'' @ format cfg) of
                Inl e \<Rightarrow> (Inl e, w1)
              | Inr target \<Rightarrow> replace_path env most_recent_duplicate target w1))
      else (Inr (), w))"

text \<open>
  Lines 434 to 475, the \<open>metadata\<close> branch: the duplicates are reconciled, the tags
  are written into the output file, and the song is returned with its output path.
\<close>

definition update_metadata ::
  "env \<Rightarrow> settings \<Rightarrow> Song \<Rightarrow> path \<Rightarrow> path list \<Rightarrow> world
     \<Rightarrow> (py_exception + Song \<times> path option) \<times> world" where
  "update_metadata env cfg song output_file dup_song_paths w =
     (case reconcile_duplicates env cfg output_file dup_song_paths w of
        (Inl e, w2) \<Rightarrow> (Inl e, w2)
      | (Inr u, w2) \<Rightarrow>
          (case embed env output_file song w2 of
             (Inl e, w3) \<Rightarrow> (Inl e, w3)
           | (Inr u, w3) \<Rightarrow> (Inr (song, Some output_file), emit NotifyComplete w3)))"

text \<open>
  Lines 481 to 521: the download URL is the song's own or the result of \<open>search\<close>;
  yt-dlp fetches it; the temporary file is named after the \<open>id\<close> and \<open>ext\<close> of the
  answer. The answer is subscripted before it is compared with \<open>None\<close>, so a \<open>None\<close>
  answer raises \<open>TypeError\<close> there, and the \<open>DownloaderError\<close> of the comparison that
  follows is never reached.
\<close>

definition acquire ::
  "env \<Rightarrow> Song \<Rightarrow> world \<Rightarrow> (py_exception + string \<times> download_info \<times> path) \<times> world" where
  "acquire env song w =
     (case (case download_url song of None \<Rightarrow> search env song w | Some u \<Rightarrow> (Inr u, w)) of
        (Inl e, w1) \<Rightarrow> (Inl e, w1)
      | (Inr link, w1) \<Rightarrow>
          (case run_io (get_download_metadata env link) (emit (Fetch link) w1) of
             (Inl e, w2) \<Rightarrow> (Inl e, w2)
           | (Inr None, w2) \<Rightarrow>
               (Inl (TypeError ''NoneType object is not subscriptable''), w2)
           | (Inr (Some info), w2) \<Rightarrow>
               (Inr (link, info, get_temp_path env @ ''/'' @ info_id info @ ''.'' @ ext info),
                emit NotifyDownloadComplete w2)))"

text \<open>Lines 525 to 530: the bitrate handed to the transcoder.\<close>

definition choose_bitrate :: "settings \<Rightarrow> download_info \<Rightarrow> string option" where
  "choose_bitrate cfg info =
     (if bitrate cfg = Some ''disable'' then None
      else if bitrate cfg = Some ''auto'' \<or> bitrate cfg = None
        then Some (str_nat (abr info) @ ''k'')
      else bitrate cfg)"

text \<open>Lines 532 to 540: the call of \<open>convert\<close>.\<close>

definition transcode ::
  "env \<Rightarrow> settings \<Rightarrow> download_info \<Rightarrow> path \<Rightarrow> path \<Rightarrow> world
     \<Rightarrow> (py_exception + bool \<times> (string \<times> string) list option) \<times> world" where
  "transcode env cfg info temp_file output_file w =
     run_io (convert env temp_file output_file (choose_bitrate cfg info))
       (emit (Transcode temp_file output_file (choose_bitrate cfg info)) w)"

text \<open>
  Lines 543 to 553: the temporary file is removed, and a failure to remove it is raised
  again as \<open>DownloaderError\<close>.
\<close>

definition remove_temp :: "env \<Rightarrow> path \<Rightarrow> world \<Rightarrow> (py_exception + unit) \<times> world" where
  "remove_temp env temp_file w =
     (if path_exists w temp_file then
        (case unlink env temp_file w of
           (Inl exc, w1) \<Rightarrow>
             (Inl (PyExc ''DownloaderError''
                (''Could not remove temp file: '' @ temp_file @ '', possible duplicate song'')), w1)
         | (Inr u, w1) \<Rightarrow> (Inr (), w1))
      else (Inr (), w))"

text \<open>Lines 565 to 567: the text of the report, one block for each diagnostic.\<close>

definition error_message :: "(string \<times> string) list \<Rightarrow> string" where
  "error_message result =
     concat (map (\<lambda>(key, val).
        ''### '' @ key @ '':'' @ [CHR 0x0A] @ strip val @ [CHR 0x0A, CHR 0x0A]) result)"

definition report_name :: "env \<Rightarrow> path" where
  "report_name env = get_errors_path env @ ''/ffmpeg_error_'' @ now env @ ''.txt''"

text \<open>
  Lines 560 to 579, entered when the conversion failed with diagnostics: the report is
  written, the output file is unlinked if it exists, and \<open>FFmpegError\<close> is raised with
  the report's path; a failing write or unlink raises its own exception instead. The
  block always ends in an exception.
\<close>

definition report_failure ::
  "env \<Rightarrow> Song \<Rightarrow> path \<Rightarrow> (string \<times> string) list \<Rightarrow> world \<Rightarrow> py_exception \<times> world" where
  "report_failure env song output_file result w =
     (case write_file env (report_name env) (Text (error_message result)) w of
        (Inl e, w1) \<Rightarrow> (e, w1)
      | (Inr u, w1) \<Rightarrow>
          (case (if path_exists w1 output_file then unlink env output_file w1
                 else (Inr (), w1)) of
             (Inl e, w2) \<Rightarrow> (e, w2)
           | (Inr u, w2) \<Rightarrow>
               (PyExc ''FFmpegError''
                  (''Failed to convert '' @ display_name env song
                     @ '', you can find error here: '' @ report_name env), w2)))"

text \<open>\<open>for file_to_delete in files_to_delete: Path(file_to_delete).unlink()\<close>.\<close>

fun unlink_all :: "env \<Rightarrow> path list \<Rightarrow> world \<Rightarrow> (py_exception + unit) \<times> world" where
  "unlink_all env [] w = (Inr (), w)"
| "unlink_all env (file_to_delete # rest) w =
     (case unlink env file_to_delete w of
        (Inl e, w1) \<Rightarrow> (Inl e, w1)
      | (Inr u, w1) \<Rightarrow> unlink_all env rest w1)"

text \<open>Lines 590 to 618: the SponsorBlock post-processing.\<close>

definition post_process ::
  "env \<Rightarrow> settings \<Rightarrow> download_info \<Rightarrow> world \<Rightarrow> (py_exception + download_info) \<times> world" where
  "post_process env cfg info w =
     (if sponsor_block cfg then
        (case run_io (sponsorblock_run env info) (emit SponsorBlock w) of
           (Inl e, w1) \<Rightarrow> (Inl e, w1)
         | (Inr info1, w1) \<Rightarrow>
             if length (sponsorblock_chapters info1) > 0 then
               (case run_io (modify_chapters_run env info1) (emit ModifyChapters w1) of
                  (Inl e, w2) \<Rightarrow> (Inl e, w2)
                | (Inr (files_to_delete, info2), w2) \<Rightarrow>
                    (case unlink_all env files_to_delete w2 of
                       (Inl e, w3) \<Rightarrow> (Inl e, w3)
                     | (Inr u, w3) \<Rightarrow> (Inr info2, w3)))
             else (Inr info1, w1))
      else (Inr info, w))"

text \<open>
  Lines 620 to 625: any exception of \<open>embed_metadata\<close> is raised again as
  \<open>MetadataError\<close>.
\<close>

definition embed_tags :: "env \<Rightarrow> path \<Rightarrow> Song \<Rightarrow> world \<Rightarrow> (py_exception + unit) \<times> world" where
  "embed_tags env output_file song w =
     (case embed env output_file song w of
        (Inl exc, w1) \<Rightarrow>
          (Inl (PyExc ''MetadataError'' ''Failed to embed metadata to the song''), w1)
      | (Inr u, w1) \<Rightarrow> (Inr (), w1))"

text \<open>
  Line 630, \<open>self.known_songs.get(song.url, []).append(output_file)\<close>: \<open>get\<close> returns
  the list stored under the URL, which the append then extends in place, or, when the
  URL is not a key, a new empty list that belongs to no key.
\<close>

definition register_known :: "Song \<Rightarrow> path \<Rightarrow> world \<Rightarrow> world" where
  "register_known song output_file w =
     (case known_songs w (url song) of
        None \<Rightarrow> w
      | Some paths \<Rightarrow> w\<lparr>known_songs := (known_songs w)(url song \<mapsto> paths @ [output_file])\<rparr>)"

text \<open>
  Line 555, \<open>if not success and result\<close>: the diagnostics the failure block works on,
  when the conversion failed and returned a non-empty dictionary.
\<close>

definition failure_diagnostics ::
  "bool \<Rightarrow> (string \<times> string) list option \<Rightarrow> (string \<times> string) list option" where
  "failure_diagnostics success result =
     (if success then None
      else (case result of None \<Rightarrow> None | Some d \<Rightarrow> if d = [] then None else Some d))"

text \<open>
  Lines 581 to 636: the download URL is stored in the song, the post-processing and the
  embedding run, and the output path is added to the known songs. An exception leaves
  together with the song as it is at that moment.
\<close>

definition finish ::
  "env \<Rightarrow> settings \<Rightarrow> Song \<Rightarrow> path \<Rightarrow> string \<Rightarrow> download_info \<Rightarrow> world
     \<Rightarrow> (py_exception \<times> Song + Song \<times> path option) \<times> world" where
  "finish env cfg song output_file link info w =
     (let info1 = info\<lparr>filepath := Some output_file\<rparr>;
          song1 = (if download_url song = None
                   then song\<lparr>download_url := Some link\<rparr> else song);
          w1 = emit NotifyConversionComplete w
      in case post_process env cfg info1 w1 of
           (Inl e, w2) \<Rightarrow> (Inl (e, song1), w2)
         | (Inr info2, w2) \<Rightarrow>
             (case embed_tags env output_file song1 w2 of
                (Inl e, w3) \<Rightarrow> (Inl (e, song1), w3)
              | (Inr u, w3) \<Rightarrow>
                  (Inr (song1, Some output_file),
                   register_known song1 output_file (emit NotifyComplete w3))))"

text \<open>Lines 481 to 636, the body of the \<open>try\<close>.\<close>

definition download ::
  "env \<Rightarrow> settings \<Rightarrow> Song \<Rightarrow> path \<Rightarrow> world
     \<Rightarrow> (py_exception \<times> Song + Song \<times> path option) \<times> world" where
  "download env cfg song output_file w =
     (case acquire env song w of
        (Inl e, w1) \<Rightarrow> (Inl (e, song), w1)
      | (Inr (link, info, temp_file), w1) \<Rightarrow>
          (case transcode env cfg info temp_file output_file w1 of
             (Inl e, w2) \<Rightarrow> (Inl (e, song), w2)
           | (Inr (success, result), w2) \<Rightarrow>
               (case remove_temp env temp_file w2 of
                  (Inl e, w3) \<Rightarrow> (Inl (e, song), w3)
                | (Inr u, w3) \<Rightarrow>
                    (case failure_diagnostics success result of
                       Some d \<Rightarrow>
                         (case report_failure env song output_file d w3 of
                            (e, w4) \<Rightarrow> (Inl (e, song), w4))
                     | None \<Rightarrow> finish env cfg song output_file link info w3))))"

text \<open>
  Lines 637 to 652, the handler of the \<open>try\<close>: a \<open>UnicodeEncodeError\<close> is replaced by
  a \<open>DownloaderError\<close> with a hint, the tracker is told, and one line is appended to
  \<open>self.errors\<close>. Every value of \<open>py_exception\<close> stands for an instance of
  \<open>Exception\<close>, which the clause catches.
\<close>

definition error_line :: "Song \<Rightarrow> py_exception \<Rightarrow> string" where
  "error_line song exception =
     url song @ '' - '' @ exc_class exception @ '': '' @ exc_msg exception"

definition reported :: "py_exception \<Rightarrow> py_exception" where
  "reported exception =
     (if exc_class exception = ''UnicodeEncodeError''
      then PyExc ''DownloaderError''
             ''You may need to add PYTHONIOENCODING=utf-8 to your environment''
      else exception)"

definition on_exception ::
  "Song \<Rightarrow> py_exception \<Rightarrow> world \<Rightarrow> (py_exception + Song \<times> path option) \<times> world" where
  "on_exception song exception w =
     (let w1 = emit (NotifyError (reported exception)) w
      in (Inr (song, None), w1\<lparr>errors := errors w1 @ [error_line song (reported exception)]\<rparr>))"

text \<open>
  \<open>Downloader.search_and_download\<close>. \<open>Inl\<close> is an exception that leaves the function,
  \<open>Inr\<close> the pair it returns.
\<close>

definition search_and_download ::
  "env \<Rightarrow> settings \<Rightarrow> Song \<Rightarrow> world \<Rightarrow> (py_exception + Song \<times> path option) \<times> world" where
  "search_and_download env cfg song0 w0 =
     (case prepare env cfg song0 w0 of
        (Inl e, w) \<Rightarrow> (Inl e, w)
      | (Inr (song, output_file, dup_song_paths), w) \<Rightarrow>
          if (path_exists w output_file \<or> dup_song_paths \<noteq> []) \<and> overwrite cfg = ''skip''
          then (Inr (song, None), emit NotifyDownloadSkip w)
          else
            (let w1 = (if (path_exists w output_file \<or> dup_song_paths \<noteq> [])
                          \<and> overwrite cfg = ''force''
                       then remove_duplicates env dup_song_paths w else w)
             in if (path_exists w1 output_file \<or> dup_song_paths \<noteq> [])
                   \<and> overwrite cfg = ''metadata''
                then update_metadata env cfg song output_file dup_song_paths w1
                else
                  (case mkdir_parent env output_file of
                     Some e \<Rightarrow> (Inl e, w1)
                   | None \<Rightarrow>
                       (case download env cfg song output_file w1 of
                          (Inl (exception, song1), w2) \<Rightarrow> on_exception song1 exception w2
                        | (Inr r, w2) \<Rightarrow> (Inr r, w2)))))"

text \<open>
  The way to line 480: the song, the output path and the state with which the \<open>try\<close>
  is entered, when no exception and no \<open>return\<close> came before it.
\<close>

definition enters_try ::
  "env \<Rightarrow> settings \<Rightarrow> Song \<Rightarrow> world \<Rightarrow> (Song \<times> path \<times> world) option" where
  "enters_try env cfg song0 w0 =
     (case prepare env cfg song0 w0 of
        (Inl e, w) \<Rightarrow> None
      | (Inr (song, output_file, dup_song_paths), w) \<Rightarrow>
          if (path_exists w output_file \<or> dup_song_paths \<noteq> []) \<and> overwrite cfg = ''skip''
          then None
          else
            (let w1 = (if (path_exists w output_file \<or> dup_song_paths \<noteq> [])
                          \<and> overwrite cfg = ''force''
                       then remove_duplicates env dup_song_paths w else w)
             in if (path_exists w1 output_file \<or> dup_song_paths \<noteq> [])
                   \<and> overwrite cfg = ''metadata''
                then None
                else (case mkdir_parent env output_file of
                        Some e \<Rightarrow> None
                      | None \<Rightarrow> Some (song, output_file, w1))))"

section \<open>download/downloader.py: the batch\<close>

text \<open>
  The event loop runs every task to its end, in an order it chooses, and
  \<open>asyncio.gather\<close> hands the results back in the order of the tasks. A unit of work is
  run here as one step. \<open>schedule order n\<close> is the order in which the \<open>n\<close> units run: the
  units that \<open>order\<close> names, in that order, then the others; every order of the units
  is the schedule of some \<open>order\<close>.
\<close>

definition schedule :: "nat list \<Rightarrow> nat \<Rightarrow> nat list" where
  "schedule order n =
     remdups (filter (\<lambda>i. i < n) order) @ filter (\<lambda>i. i \<notin> set order) [0..<n]"

text \<open>
  The units in the order they run, each paired with the index of its task. The first
  exception that leaves a unit leaves \<open>gather\<close>, and with it \<open>run_until_complete\<close>.
\<close>

fun run_units ::
  "env \<Rightarrow> settings \<Rightarrow> Song list \<Rightarrow> nat list \<Rightarrow> world
     \<Rightarrow> (py_exception + (nat \<times> Song \<times> path option) list) \<times> world" where
  "run_units env cfg songs [] w = (Inr [], w)"
| "run_units env cfg songs (i # rest) w =
     (case search_and_download env cfg (songs ! i) w of
        (Inl e, w1) \<Rightarrow> (Inl e, w1)
      | (Inr r, w1) \<Rightarrow>
          (case run_units env cfg songs rest w1 of
             (Inl e, w2) \<Rightarrow> (Inl e, w2)
           | (Inr finished, w2) \<Rightarrow> (Inr ((i, r) # finished), w2)))"

definition gather ::
  "env \<Rightarrow> settings \<Rightarrow> nat list \<Rightarrow> Song list \<Rightarrow> world
     \<Rightarrow> (py_exception + (Song \<times> path option) list) \<times> world" where
  "gather env cfg order songs w =
     (case run_units env cfg songs (schedule order (length songs)) w of
        (Inl e, w1) \<Rightarrow> (Inl e, w1)
      | (Inr finished, w1) \<Rightarrow> (Inr (map snd (sort_key fst finished)), w1))"

text \<open>Line 220: the songs that are scheduled.\<close>

definition scheduled :: "settings \<Rightarrow> world \<Rightarrow> Song list \<Rightarrow> Song list" where
  "scheduled cfg w songs =
     (if truthy (archive cfg) then filter (\<lambda>song. url song \<notin> url_archive w) songs
      else songs)"

text \<open>Lines 236 to 241: the URLs of the results that have a path join the archive.\<close>

definition archive_results :: "(Song \<times> path option) list \<Rightarrow> world \<Rightarrow> world" where
  "archive_results results w =
     w\<lparr>url_archive :=
         url_archive w \<union> set (map (\<lambda>r. url (fst r)) (filter (\<lambda>r. snd r \<noteq> None) results))\<rparr>"

text \<open>Line 257: what \<open>json.dump\<close> is given.\<close>

definition save_file_document :: "env \<Rightarrow> (Song \<times> path option) list \<Rightarrow> json" where
  "save_file_document env results = JArr (map (\<lambda>r. song_json env (fst r)) results)"

text \<open>Lines 231 to 257: what follows the tasks. Printing the errors changes nothing.\<close>

definition after_batch ::
  "env \<Rightarrow> settings \<Rightarrow> (Song \<times> path option) list \<Rightarrow> world \<Rightarrow> (py_exception + unit) \<times> world" where
  "after_batch env cfg results w =
     (case (case archive cfg of
              None \<Rightarrow> (Inr (), w)
            | Some a \<Rightarrow>
                if a = [] then (Inr (), w)
                else (let w1 = archive_results results w
                      in run_io (archive_save env (url_archive w1) a) w1)) of
        (Inl e, w2) \<Rightarrow> (Inl e, w2)
      | (Inr u, w2) \<Rightarrow>
          (case (case m3u cfg of
                   None \<Rightarrow> (Inr (), w2)
                 | Some m \<Rightarrow>
                     if m = [] then (Inr (), w2)
                     else run_io (gen_m3u_files env (map fst results) m
                                    (output_template cfg) (format cfg)) w2) of
             (Inl e, w3) \<Rightarrow> (Inl e, w3)
           | (Inr u, w3) \<Rightarrow>
               (case save_file cfg of
                  None \<Rightarrow> (Inr (), w3)
                | Some f \<Rightarrow>
                    if f = [] then (Inr (), w3)
                    else write_file env f (JsonDoc (save_file_document env results)) w3)))"

text \<open>\<open>Downloader.download_multiple_songs\<close>.\<close>

definition download_multiple_songs ::
  "env \<Rightarrow> settings \<Rightarrow> nat list \<Rightarrow> Song list \<Rightarrow> world
     \<Rightarrow> (py_exception + (Song \<times> path option) list) \<times> world" where
  "download_multiple_songs env cfg order songs0 w0 =
     (let songs = scheduled cfg w0 songs0;
          w = emit (SetSongCount (length songs)) w0
      in case gather env cfg order songs w of
           (Inl e, w1) \<Rightarrow> (Inl e, w1)
         | (Inr results, w1) \<Rightarrow>
             (case after_batch env cfg results w1 of
                (Inl e, w2) \<Rightarrow> (Inl e, w2)
              | (Inr u, w2) \<Rightarrow> (Inr results, w2)))"

section \<open>A concrete run\<close>

text \<open>
  One song, and collaborators that all succeed: no lyrics are found, the only audio
  provider has a link, the fetch leaves \<open>/tmp/v.webm\<close>, the conversion writes the
  output file, and the disk starts empty.
\<close>

definition example_song :: Song where
  "example_song =
     \<lparr>name = Some ''S'', url = ''sp/1'', artists = [''A''], artist = ''A'',
      download_url = None, song_lyrics = None\<rparr>"

definition example_info :: download_info where
  "example_info =
     \<lparr>info_id = ''v'', ext = ''webm'', abr = 128, filepath = None,
      sponsorblock_chapters = []\<rparr>"

definition example_env :: env where
  "example_env =
     \<lparr>reinit_song = (\<lambda>song numbering. Inr song),
      lyrics_providers = [\<lambda>title names. Inr None],
      display_name = (\<lambda>song. artist song @ '' - '' @ (case name song of None \<Rightarrow> ''None'' | Some n \<Rightarrow> n)),
      song_json = (\<lambda>song. JObj [(''url'', JStr (url song))]),
      create_file_name = (\<lambda>song template fmt. Inr (''/m/'' @ artist song @ ''.'' @ fmt)),
      restrict_filename = (\<lambda>p. p),
      get_temp_path = ''/tmp'',
      get_errors_path = ''/err'',
      now = ''T'',
      clock = 7,
      denied = (\<lambda>p. False),
      mkdir_parent = (\<lambda>p. None),
      audio_providers = [\<lambda>song. Inr (Some ''yt/v'')],
      get_download_metadata = (\<lambda>link fs.
        (Inr (Some example_info), fs(''/tmp/v.webm'' \<mapsto> \<lparr>st_mtime = 7, data = Text ''raw''\<rparr>))),
      convert = (\<lambda>input out rate fs.
        (Inr (True, None), fs(out \<mapsto> \<lparr>st_mtime = 7, data = Text ''audio''\<rparr>))),
      sponsorblock_run = (\<lambda>info fs. (Inr info, fs)),
      modify_chapters_run = (\<lambda>info fs. (Inr ([], info), fs)),
      embed_metadata = (\<lambda>p song fs. (Inr (), fs)),
      archive_save = (\<lambda>urls p fs. (Inr (), fs)),
      gen_m3u_files = (\<lambda>songs m out fmt fs. (Inr (), fs))\<rparr>"

definition example_settings :: settings where
  "example_settings =
     \<lparr>output_template = ''/m'', format = ''mp3'', restrict = False, overwrite = ''skip'',
      bitrate = None, sponsor_block = False, playlist_numbering = False, archive = None,
      save_file = None, m3u = None, print_errors = False, threads = 4\<rparr>"

definition example_world :: world where
  "example_world =
     \<lparr>files = Map.empty, known_songs = Map.empty, errors = [], url_archive = {}, trace = []\<rparr>"

definition env_lyrics_down :: env where
  "env_lyrics_down =
     example_env\<lparr>lyrics_providers := [\<lambda>title names. Inl (PyExc ''ConnectionError'' ''genius'')]\<rparr>"

definition env_no_match :: env where
  "env_no_match = example_env\<lparr>audio_providers := [\<lambda>song. Inr None]\<rparr>"

text \<open>The events of the steps before the output path is known.\<close>

fun lookup_event :: "event \<Rightarrow> bool" where
  "lookup_event (Reinit s) = True"
| "lookup_event (GetLyrics t a) = True"
| "lookup_event e = False"

text \<open>
  The disk of a second run: two files that carry the URL of the example song, neither at
  its output path; \<open>b\<close> is the newer one.
\<close>

definition world_with_duplicates :: world where
  "world_with_duplicates =
     example_world
       \<lparr>files := [''/old/a.mp3'' \<mapsto> \<lparr>st_mtime = 1, data = Text ''a''\<rparr>,
                  ''/old/b.mp3'' \<mapsto> \<lparr>st_mtime = 5, data = Text ''b''\<rparr>],
        known_songs := [''sp/1'' \<mapsto> [''/old/a.mp3'', ''/old/b.mp3'']]\<rparr>"

text \<open>
  The disk the \<open>metadata\<close> policy is meant to leave before the tags are written, in
  the words of the amended claim: the chosen duplicate is at the output path and no
  longer at its own, no other duplicate exists any more unless its removal is refused,
  and every other file is as it was.
\<close>

definition reconciled ::
  "filesystem \<Rightarrow> path list \<Rightarrow> (path \<Rightarrow> bool) \<Rightarrow> path \<Rightarrow> path \<Rightarrow> filesystem" where
  "reconciled fs dups refused chosen output_file =
     (\<lambda>p. if p = output_file then fs chosen
          else if p = chosen then None
          else if p \<in> set dups \<and> \<not> refused p then None
          else fs p)"

text \<open>
  The example with the output file already on disk; and with an operating system that
  refuses to remove the older duplicate and an embedder that raises on a missing file.
\<close>

definition world_with_output :: world where
  "world_with_output =
     example_world\<lparr>files := [''/m/A.mp3'' \<mapsto> \<lparr>st_mtime = 3, data = Text ''old''\<rparr>]\<rparr>"

definition env_refusing :: env where
  "env_refusing =
     example_env
       \<lparr>denied := (\<lambda>p. p = ''/old/a.mp3''),
        embed_metadata := (\<lambda>p song fs.
          if fs p = None then (Inl (PyExc ''MetadataError'' p), fs) else (Inr (), fs))\<rparr>"

text \<open>The example with a transcoder that fails, with diagnostics and without.\<close>

definition env_convert_fails :: env where
  "env_convert_fails =
     example_env\<lparr>convert := (\<lambda>input out rate fs.
        (Inr (False, Some [(''error'', '' boom '')]),
         fs(out \<mapsto> \<lparr>st_mtime = 7, data = Text ''part''\<rparr>)))\<rparr>"

definition env_silent_failure :: env where
  "env_silent_failure =
     example_env\<lparr>convert := (\<lambda>input out rate fs. (Inr (False, None), fs))\<rparr>"

definition metadata_settings :: settings where
  "metadata_settings = example_settings\<lparr>overwrite := ''metadata''\<rparr>"

text \<open>A second song for the batch.\<close>

definition other_song :: Song where
  "other_song =
     \<lparr>name = Some ''T'', url = ''sp/2'', artists = [''B''], artist = ''B'',
      download_url = None, song_lyrics = None\<rparr>"

text \<open>
  The results manifest in the words of the specification: a JSON array in which each
  track record is paired with its output path, \<open>null\<close> for a track that failed.
\<close>

definition manifest_as_specified :: "env \<Rightarrow> (Song \<times> path option) list \<Rightarrow> json" where
  "manifest_as_specified env results =
     JArr (map (\<lambda>r. JArr [song_json env (fst r),
                             (case snd r of None \<Rightarrow> JNull | Some p \<Rightarrow> JStr p)]) results)"

text \<open>The example settings with a save file, and with an archive.\<close>

definition save_settings :: settings where
  "save_settings = example_settings\<lparr>save_file := Some ''/save''\<rparr>"

definition archive_settings :: settings where
  "archive_settings = example_settings\<lparr>archive := Some ''/arch''\<rparr>"

definition world_with_archive :: world where
  "world_with_archive = example_world\<lparr>url_archive := {''sp/1''}\<rparr>"

text \<open>
  A song keeps its URL through the re-resolution of line 353: it is no placeholder, or
  \<open>reinit_song\<close> raises on it, or gives a song of the same URL.
\<close>

definition keeps_url :: "env \<Rightarrow> settings \<Rightarrow> Song \<Rightarrow> bool" where
  "keeps_url env cfg song =
     (if name song = None \<and> url song \<noteq> []
      then (case reinit_song env song (playlist_numbering cfg) of
              Inl e \<Rightarrow> True
            | Inr song1 \<Rightarrow> url song1 = url song)
      else True)"

lemmas pipeline_defs = search_and_download_def prepare_def search_lyrics_def search_def
  acquire_def transcode_def remove_temp_def failure_diagnostics_def finish_def download_def
  post_process_def embed_tags_def embed_def register_known_def on_exception_def reported_def
  error_line_def update_metadata_def reconcile_duplicates_def most_recent_def report_failure_def report_name_def
  error_message_def choose_bitrate_def enters_try_def
  run_io_def emit_def path_exists_def unlink_def try_unlink_def replace_path_def write_file_def
  stat_mtime_def truthy_def TypeError_def

lemmas example_defs = example_env_def example_settings_def example_song_def example_world_def
  example_info_def

section \<open>The error list is touched by the handler only\<close>

lemma errors_emit: "errors (emit e w) = errors w"
  by (simp add: emit_def)

lemma errors_run_io: "run_io act w = (r, w') \<Longrightarrow> errors w' = errors w"
  by (auto simp: run_io_def split: prod.splits)

lemma errors_unlink: "unlink env p w = (r, w') \<Longrightarrow> errors w' = errors w"
  by (auto simp: unlink_def split: if_splits)

lemma errors_try_unlink: "errors (try_unlink env p w) = errors w"
  by (auto simp: try_unlink_def unlink_def split: if_splits)

lemma errors_replace_path: "replace_path env a b w = (r, w') \<Longrightarrow> errors w' = errors w"
  by (auto simp: replace_path_def split: option.splits if_splits)

lemma errors_write_file: "write_file env p c w = (r, w') \<Longrightarrow> errors w' = errors w"
  by (auto simp: write_file_def split: if_splits)

lemma errors_lyrics_loop: "lyrics_loop ps song w = (r, w') \<Longrightarrow> errors w' = errors w"
proof (induction ps arbitrary: w)
  case Nil
  then show ?case by simp
next
  case (Cons p ps)
  show ?case
  proof (cases "p (name song) (artists song)")
    case (Inl e)
    with Cons.prems show ?thesis by (auto simp: Let_def errors_emit)
  next
    case (Inr found)
    show ?thesis
    proof (cases "truthy found")
      case True
      with Inr Cons.prems show ?thesis by (auto simp: Let_def errors_emit)
    next
      case False
      with Inr Cons.prems
      have "lyrics_loop ps song (emit (GetLyrics (name song) (artists song)) w) = (r, w')"
        by (simp add: Let_def)
      from Cons.IH[OF this] show ?thesis by (simp add: errors_emit)
    qed
  qed
qed

lemma errors_search_loop: "search_loop ps env song w = (r, w') \<Longrightarrow> errors w' = errors w"
proof (induction ps arbitrary: w)
  case Nil
  then show ?case by simp
next
  case (Cons p ps)
  let ?w1 = "emit (AudioSearch song) w"
  show ?case
  proof (cases "p song")
    case (Inl e)
    with Cons.prems show ?thesis by (auto simp: Let_def errors_emit)
  next
    case (Inr found)
    show ?thesis
    proof (cases "\<exists>u. found = Some u \<and> u \<noteq> []")
      case True
      with Inr Cons.prems show ?thesis by (auto simp: Let_def errors_emit)
    next
      case False
      with Inr Cons.prems have "search_loop ps env song ?w1 = (r, w')"
        by (cases found) (auto simp: Let_def)
      from Cons.IH[OF this] show ?thesis by (simp add: errors_emit)
    qed
  qed
qed

lemma errors_remove_duplicates: "errors (remove_duplicates env ps w) = errors w"
  by (induction ps arbitrary: w) (simp_all add: errors_try_unlink)

lemma errors_remove_others: "errors (remove_others env k ps w) = errors w"
  by (induction ps arbitrary: w) (auto simp: errors_try_unlink)

lemma errors_unlink_all: "unlink_all env ps w = (r, w') \<Longrightarrow> errors w' = errors w"
proof (induction ps arbitrary: w)
  case Nil
  then show ?case by simp
next
  case (Cons p ps)
  obtain r1 w1 where u: "unlink env p w = (r1, w1)" by (cases "unlink env p w")
  then have e1: "errors w1 = errors w" by (rule errors_unlink)
  show ?case
  proof (cases r1)
    case (Inl e)
    with u Cons.prems e1 show ?thesis by simp
  next
    case (Inr x)
    with u Cons.prems have "unlink_all env ps w1 = (r, w')" by simp
    from Cons.IH[OF this] e1 show ?thesis by simp
  qed
qed


lemma errors_prepare: "prepare env cfg song0 w0 = (r, w) \<Longrightarrow> errors w = errors w0"
proof -
  assume p: "prepare env cfg song0 w0 = (r, w)"
  define start where "start = (if name song0 = None \<and> url song0 \<noteq> []
            then (reinit_song env song0 (playlist_numbering cfg), emit (Reinit song0) w0)
            else (Inr song0, w0))"
  have e1: "errors (snd start) = errors w0" by (simp add: start_def errors_emit)
  show ?thesis
  proof (cases "fst start")
    case (Inl e)
    with p e1 show ?thesis
      by (auto simp: prepare_def start_def[symmetric] split: prod.splits)
  next
    case (Inr song1)
    obtain r2 w2 where l: "search_lyrics env song1 (snd start) = (r2, w2)"
      by (cases "search_lyrics env song1 (snd start)")
    then have e2: "errors w2 = errors w0"
      using e1 by (auto simp: search_lyrics_def dest: errors_lyrics_loop)
    from p Inr l have "w = w2"
      by (auto simp: prepare_def start_def[symmetric] Let_def split: prod.splits sum.splits)
    with e2 show ?thesis by simp
  qed
qed

lemma errors_acquire: "acquire env song w = (r, w') \<Longrightarrow> errors w' = errors w"
proof -
  assume a: "acquire env song w = (r, w')"
  define s where "s = (case download_url song of None \<Rightarrow> search env song w | Some u \<Rightarrow> (Inr u, w))"
  have e1: "errors (snd s) = errors w"
    by (cases "download_url song")
       (auto simp: s_def search_def intro: errors_search_loop[OF surjective_pairing])
  show ?thesis
  proof (cases "fst s")
    case (Inl e)
    with a e1 show ?thesis by (auto simp: acquire_def s_def[symmetric] split: prod.splits)
  next
    case (Inr link)
    obtain r2 w2 where f: "run_io (get_download_metadata env link) (emit (Fetch link) (snd s)) = (r2, w2)"
      by (cases "run_io (get_download_metadata env link) (emit (Fetch link) (snd s))")
    from errors_run_io[OF f] e1 have e2: "errors w2 = errors w" by (simp add: errors_emit)
    from a Inr f e2 show ?thesis
      by (auto simp: acquire_def s_def[symmetric] errors_emit split: prod.splits sum.splits option.splits)
  qed
qed

lemma errors_transcode: "transcode env cfg info t out w = (r, w') \<Longrightarrow> errors w' = errors w"
  by (auto simp: transcode_def errors_emit dest!: errors_run_io)

lemma errors_remove_temp: "remove_temp env t w = (r, w') \<Longrightarrow> errors w' = errors w"
  by (auto simp: remove_temp_def split: if_splits prod.splits sum.splits dest: errors_unlink)

lemma errors_report_failure: "report_failure env song out d w = (e, w') \<Longrightarrow> errors w' = errors w"
proof -
  assume a: "report_failure env song out d w = (e, w')"
  obtain r1 w1 where s1: "write_file env (report_name env) (Text (error_message d)) w = (r1, w1)"
    by (cases "write_file env (report_name env) (Text (error_message d)) w")
  have e1: "errors w1 = errors w" using errors_write_file[OF s1] .
  obtain r2 w2 where s2: "(if path_exists w1 out then unlink env out w1 else (Inr (), w1)) = (r2, w2)"
    by (cases "if path_exists w1 out then unlink env out w1 else (Inr (), w1)")
  have e2: "errors w2 = errors w1"
    using s2 by (auto split: if_splits dest: errors_unlink)
  from a s1 s2 have "w' = w1 \<or> w' = w2"
    by (cases r1; cases r2) (simp_all add: report_failure_def)
  with e1 e2 show ?thesis by auto
qed

lemma errors_embed: "embed env out song w = (r, w') \<Longrightarrow> errors w' = errors w"
  by (auto simp: embed_def errors_emit dest!: errors_run_io)

lemma errors_embed_tags: "embed_tags env out song w = (r, w') \<Longrightarrow> errors w' = errors w"
  by (auto simp: embed_tags_def split: prod.splits sum.splits dest: errors_embed)

lemma errors_register_known: "errors (register_known song out w) = errors w"
  by (simp add: register_known_def split: option.splits)


lemma errors_post_process: "post_process env cfg info w = (r, w') \<Longrightarrow> errors w' = errors w"
proof (cases "sponsor_block cfg")
  case False
  assume "post_process env cfg info w = (r, w')"
  with False show ?thesis by (simp add: post_process_def)
next
  case True
  assume a: "post_process env cfg info w = (r, w')"
  obtain r1 w1 where s1: "run_io (sponsorblock_run env info) (emit SponsorBlock w) = (r1, w1)"
    by (cases "run_io (sponsorblock_run env info) (emit SponsorBlock w)")
  have e1: "errors w1 = errors w" using errors_run_io[OF s1] by (simp add: errors_emit)
  show ?thesis
  proof (cases r1)
    case (Inl e)
    with a True s1 e1 show ?thesis by (simp add: post_process_def)
  next
    case (Inr info1)
    show ?thesis
    proof (cases "length (sponsorblock_chapters info1) > 0")
      case False
      with a True s1 e1 Inr show ?thesis by (simp add: post_process_def)
    next
      case chapters: True
      obtain r2 w2 where s2: "run_io (modify_chapters_run env info1) (emit ModifyChapters w1) = (r2, w2)"
        by (cases "run_io (modify_chapters_run env info1) (emit ModifyChapters w1)")
      have e2: "errors w2 = errors w" using errors_run_io[OF s2] e1 by (simp add: errors_emit)
      show ?thesis
      proof (cases r2)
        case (Inl e)
        with a True s1 Inr chapters s2 e2 show ?thesis by (simp add: post_process_def)
      next
        case r2: (Inr x)
        obtain fs info2 where x: "x = (fs, info2)" by (cases x)
        obtain r3 w3 where s3: "unlink_all env fs w2 = (r3, w3)" by (cases "unlink_all env fs w2")
        have e3: "errors w3 = errors w" using errors_unlink_all[OF s3] e2 by simp
        from a True s1 Inr chapters s2 r2 x s3 have "w' = w3"
          by (cases r3) (simp_all add: post_process_def)
        with e3 show ?thesis by simp
      qed
    qed
  qed
qed

lemma finish_effect:
  assumes "finish env cfg song out link info w = (r, w')"
  shows "errors w' = errors w \<and>
         (case r of Inl (e, song1) \<Rightarrow> url song1 = url song
          | Inr (song1, p) \<Rightarrow> url song1 = url song \<and> p = Some out)"
proof -
  define song1 where "song1 = (if download_url song = None then song\<lparr>download_url := Some link\<rparr> else song)"
  have u: "url song1 = url song" by (simp add: song1_def)
  define w1 where "w1 = emit NotifyConversionComplete w"
  obtain r2 w2 where s2: "post_process env cfg (info\<lparr>filepath := Some out\<rparr>) w1 = (r2, w2)"
    by (cases "post_process env cfg (info\<lparr>filepath := Some out\<rparr>) w1")
  have e2: "errors w2 = errors w" using errors_post_process[OF s2] by (simp add: w1_def errors_emit)
  have f: "finish env cfg song out link info w =
     (case r2 of Inl e \<Rightarrow> (Inl (e, song1), w2)
      | Inr info2 \<Rightarrow> (case embed_tags env out song1 w2 of
                (Inl e, w3) \<Rightarrow> (Inl (e, song1), w3)
              | (Inr u, w3) \<Rightarrow> (Inr (song1, Some out),
                   register_known song1 out (emit NotifyComplete w3))))"
    using s2 unfolding finish_def Let_def song1_def w1_def by simp
  show ?thesis
  proof (cases r2)
    case (Inl e)
    with f assms e2 u show ?thesis by auto
  next
    case (Inr info2)
    obtain r3 w3 where s3: "embed_tags env out song1 w2 = (r3, w3)"
      by (cases "embed_tags env out song1 w2")
    have e3: "errors w3 = errors w" using errors_embed_tags[OF s3] e2 by simp
    from f Inr s3 assms e3 u show ?thesis
      by (cases r3) (auto simp: errors_register_known errors_emit)
  qed
qed

lemma download_effect:
  assumes "download env cfg song out w = (r, w')"
  shows "errors w' = errors w \<and>
         (case r of Inl (e, song1) \<Rightarrow> url song1 = url song
          | Inr (song1, p) \<Rightarrow> url song1 = url song \<and> p = Some out)"
proof -
  obtain r1 w1 where s1: "acquire env song w = (r1, w1)" by (cases "acquire env song w")
  have e1: "errors w1 = errors w" using errors_acquire[OF s1] .
  show ?thesis
  proof (cases r1)
    case (Inl e)
    with assms s1 e1 show ?thesis by (auto simp: download_def)
  next
    case (Inr x)
    obtain link info temp_file where x: "x = (link, info, temp_file)" by (cases x)
    obtain r2 w2 where s2: "transcode env cfg info temp_file out w1 = (r2, w2)"
      by (cases "transcode env cfg info temp_file out w1")
    have e2: "errors w2 = errors w" using errors_transcode[OF s2] e1 by simp
    show ?thesis
    proof (cases r2)
      case (Inl e)
      with assms s1 Inr x s2 e2 show ?thesis by (auto simp: download_def)
    next
      case r2: (Inr y)
      obtain success result where y: "y = (success, result)" by (cases y)
      obtain r3 w3 where s3: "remove_temp env temp_file w2 = (r3, w3)"
        by (cases "remove_temp env temp_file w2")
      have e3: "errors w3 = errors w" using errors_remove_temp[OF s3] e2 by simp
      show ?thesis
      proof (cases r3)
        case (Inl e)
        with assms s1 Inr x s2 r2 y s3 e3 show ?thesis by (auto simp: download_def)
      next
        case r3: (Inr u)
        show ?thesis
        proof (cases "failure_diagnostics success result")
          case None
          with assms s1 Inr x s2 r2 y s3 r3
          have "finish env cfg song out link info w3 = (r, w')" by (simp add: download_def)
          from finish_effect[OF this] e3 show ?thesis by simp
        next
          case (Some d)
          obtain e4 w4 where s4: "report_failure env song out d w3 = (e4, w4)"
            by (cases "report_failure env song out d w3")
          have e4: "errors w4 = errors w" using errors_report_failure[OF s4] e3 by simp
          from assms s1 Inr x s2 r2 y s3 r3 Some s4 e4 show ?thesis
            by (auto simp: download_def)
        qed
      qed
    qed
  qed
qed


lemma enters_try_unfold:
  assumes "enters_try env cfg song0 w0 = Some (song, output_file, w1)"
  shows "errors w1 = errors w0 \<and>
         search_and_download env cfg song0 w0 =
           (case download env cfg song output_file w1 of
              (Inl (exception, song1), w2) \<Rightarrow> on_exception song1 exception w2
            | (Inr r, w2) \<Rightarrow> (Inr r, w2))"
proof -
  obtain r w where p: "prepare env cfg song0 w0 = (r, w)" by (cases "prepare env cfg song0 w0")
  have e: "errors w = errors w0" using errors_prepare[OF p] .
  show ?thesis
  proof (cases r)
    case (Inl e)
    with p assms show ?thesis by (simp add: enters_try_def)
  next
    case (Inr x)
    obtain s out dups where x: "x = (s, out, dups)" by (cases x)
    from p Inr x assms e show ?thesis
      by (auto simp: enters_try_def search_and_download_def Let_def errors_remove_duplicates
            split: if_splits option.splits)
  qed
qed

section \<open>Failure isolation\<close>

text \<open>
  C1, as amended. When the \<open>try\<close> of \<open>search_and_download\<close> is entered and its body
  (audio-source search, fetch, transcode, removal of the temporary file, failure
  report, post-processing, metadata embedding) raises, \<open>search_and_download\<close>
  returns the song and \<open>None\<close>, tells the tracker, and the error list is the one the
  call started with followed by exactly one line, made of the song's URL, the class of
  the exception and its message; a \<open>UnicodeEncodeError\<close> is recorded as the
  \<open>DownloaderError\<close> that replaces it.
\<close>

theorem guarded_failure_is_recorded:
  assumes "enters_try env cfg song0 w0 = Some (song, output_file, w1)"
      and "download env cfg song output_file w1 = (Inl (exception, song1), w2)"
  shows "search_and_download env cfg song0 w0 =
           (Inr (song1, None),
            (emit (NotifyError (reported exception)) w2)
              \<lparr>errors := errors w0 @
                 [url song @ '' - '' @ exc_class (reported exception) @ '': ''
                    @ exc_msg (reported exception)]\<rparr>)"
proof -
  from download_effect[OF assms(2)] have e: "errors w2 = errors w1" and u: "url song1 = url song"
    by simp_all
  from enters_try_unfold[OF assms(1)] assms(2) e u show ?thesis
    by (simp add: on_exception_def Let_def errors_emit error_line_def)
qed

theorem guarded_failure_is_recorded_witness:
  "enters_try env_no_match example_settings example_song example_world =
     Some (example_song, ''/m/A.mp3'', example_world\<lparr>trace := [GetLyrics (Some ''S'') [''A'']]\<rparr>)
   \<and> download env_no_match example_settings example_song ''/m/A.mp3''
         (example_world\<lparr>trace := [GetLyrics (Some ''S'') [''A'']]\<rparr>) =
       (Inl (PyExc ''LookupError'' ''No results found for song: A - S'', example_song),
        example_world\<lparr>trace := [GetLyrics (Some ''S'') [''A''], AudioSearch example_song]\<rparr>)
   \<and> fst (search_and_download env_no_match example_settings example_song example_world) =
       Inr (example_song, None)
   \<and> errors (snd (search_and_download env_no_match example_settings example_song example_world)) =
       [''sp/1 - LookupError: No results found for song: A - S'']"
proof -
  have h1: "enters_try env_no_match example_settings example_song example_world =
     Some (example_song, ''/m/A.mp3'', example_world\<lparr>trace := [GetLyrics (Some ''S'') [''A'']]\<rparr>)"
    by (simp add: pipeline_defs example_defs env_no_match_def Let_def)
  have h2: "download env_no_match example_settings example_song ''/m/A.mp3''
         (example_world\<lparr>trace := [GetLyrics (Some ''S'') [''A'']]\<rparr>) =
       (Inl (PyExc ''LookupError'' ''No results found for song: A - S'', example_song),
        example_world\<lparr>trace := [GetLyrics (Some ''S'') [''A''], AudioSearch example_song]\<rparr>)"
    by (simp add: pipeline_defs example_defs env_no_match_def Let_def)
  from guarded_failure_is_recorded[OF h1 h2] h1 h2 show ?thesis
    by (simp add: reported_def example_defs)
qed

text \<open>
  C1 as it is stated fails: an exception of a lyrics provider is raised before the
  \<open>try\<close>, leaves \<open>search_and_download\<close>, and nothing is appended to the error list.
\<close>

theorem lyrics_failure_propagates:
  "fst (search_and_download env_lyrics_down example_settings example_song example_world) =
     Inl (PyExc ''ConnectionError'' ''genius'')
   \<and> errors (snd (search_and_download env_lyrics_down example_settings example_song
        example_world)) = []"
  by (simp add: pipeline_defs example_defs env_lyrics_down_def Let_def)

section \<open>The known-songs index after a download\<close>

text \<open>
  C7 at a failing input. The downloader knows no songs (nothing was scanned), the example
  song downloads, converts and is tagged, and \<open>search_and_download\<close> returns it with
  its output path; the index still has no entry for the song's URL.
\<close>

theorem output_path_not_registered:
  "fst (search_and_download example_env example_settings example_song example_world) =
     Inr (example_song\<lparr>download_url := Some ''yt/v''\<rparr>, Some ''/m/A.mp3'')
   \<and> known_songs example_world ''sp/1'' = None
   \<and> known_songs (snd (search_and_download example_env example_settings example_song
        example_world)) ''sp/1'' = None"
  by (simp add: pipeline_defs example_defs Let_def)

section \<open>The skip policy\<close>

lemma lyrics_loop_world:
  "lyrics_loop ps song w = (r, w') \<Longrightarrow>
     \<exists>evs. w' = w\<lparr>trace := trace w @ evs\<rparr> \<and> list_all lookup_event evs"
proof (induction ps arbitrary: w)
  case Nil
  then have "w' = w\<lparr>trace := trace w @ []\<rparr> \<and> list_all lookup_event []" by simp
  then show ?case by blast
next
  case (Cons p ps)
  let ?e = "GetLyrics (name song) (artists song)"
  have one: "emit ?e w = w\<lparr>trace := trace w @ [?e]\<rparr> \<and> list_all lookup_event [?e]"
    by (simp add: emit_def)
  show ?case
  proof (cases "p (name song) (artists song)")
    case (Inl e)
    with Cons.prems have "w' = emit ?e w" by (simp add: Let_def)
    with one show ?thesis by blast
  next
    case (Inr found)
    show ?thesis
    proof (cases "truthy found")
      case True
      with Inr Cons.prems have "w' = emit ?e w" by (simp add: Let_def)
      with one show ?thesis by blast
    next
      case False
      with Inr Cons.prems have "lyrics_loop ps song (emit ?e w) = (r, w')"
        by (simp add: Let_def)
      from Cons.IH[OF this] obtain evs
        where w': "w' = (emit ?e w)\<lparr>trace := trace (emit ?e w) @ evs\<rparr>"
          and l: "list_all lookup_event evs" by blast
      from w' have "w' = w\<lparr>trace := trace w @ (?e # evs)\<rparr>" by (simp add: emit_def)
      moreover from l have "list_all lookup_event (?e # evs)" by simp
      ultimately show ?thesis by blast
    qed
  qed
qed

lemma prepare_world:
  assumes "prepare env cfg song0 w0 = (r, w)"
  shows "\<exists>evs. w = w0\<lparr>trace := trace w0 @ evs\<rparr> \<and> list_all lookup_event evs"
proof -
  define start where "start = (if name song0 = None \<and> url song0 \<noteq> []
            then (reinit_song env song0 (playlist_numbering cfg), emit (Reinit song0) w0)
            else (Inr song0, w0))"
  have "snd start = w0\<lparr>trace := trace w0 @ [Reinit song0]\<rparr> \<or> snd start = w0\<lparr>trace := trace w0 @ []\<rparr>"
    by (simp add: start_def emit_def)
  moreover have "list_all lookup_event [Reinit song0]" "list_all lookup_event []" by simp_all
  ultimately obtain evs1 where s1: "snd start = w0\<lparr>trace := trace w0 @ evs1\<rparr>"
    and l1: "list_all lookup_event evs1"
    by blast
  show ?thesis
  proof (cases "fst start")
    case (Inl e)
    with assms have "w = snd start"
      by (auto simp: prepare_def start_def[symmetric] split: prod.splits)
    with s1 l1 show ?thesis by blast
  next
    case (Inr song1)
    obtain r2 w2 where l: "search_lyrics env song1 (snd start) = (r2, w2)"
      by (cases "search_lyrics env song1 (snd start)")
    from l obtain evs2 where s2: "w2 = (snd start)\<lparr>trace := trace (snd start) @ evs2\<rparr>"
      and l2: "list_all lookup_event evs2"
      unfolding search_lyrics_def by (blast dest: lyrics_loop_world)
    from assms Inr l have "w = w2"
      by (auto simp: prepare_def start_def[symmetric] Let_def split: prod.splits sum.splits)
    with s1 s2 have "w = w0\<lparr>trace := trace w0 @ (evs1 @ evs2)\<rparr>" by simp
    moreover from l1 l2 have "list_all lookup_event (evs1 @ evs2)" by simp
    ultimately show ?thesis by blast
  qed
qed

lemma prepare_duplicates:
  assumes "prepare env cfg song0 w0 = (Inr (song, output_file, dup_song_paths), w)"
  shows "dup_song_paths =
           filter (\<lambda>p. p \<noteq> output_file \<and> path_exists w p)
             (case known_songs w (url song) of None \<Rightarrow> [] | Some ps \<Rightarrow> ps)"
  using assms
  by (auto simp: prepare_def Let_def split: prod.splits sum.splits if_splits)


text \<open>
  C2, as amended. With the overwrite policy \<open>skip\<close>, once the re-resolution, the
  lyrics lookup and the creation of the output path have returned, if the output file
  exists or a known path of the song's URL exists and differs from the output path,
  \<open>search_and_download\<close> returns the song and \<open>None\<close>; the state it leaves is the
  one it found but for the trace, which gains the lookups of the resolution and the
  skip notification: no audio search, fetch, conversion or embedding was asked for and
  the disk is as it was.
\<close>

theorem skip_existing:
  assumes "prepare env cfg song0 w0 = (Inr (song, output_file, dup_song_paths), w)"
      and "overwrite cfg = ''skip''"
      and "path_exists w0 output_file \<or>
           (\<exists>p \<in> set (case known_songs w0 (url song) of None \<Rightarrow> [] | Some ps \<Rightarrow> ps).
              p \<noteq> output_file \<and> path_exists w0 p)"
  shows "\<exists>evs. list_all lookup_event evs \<and>
           search_and_download env cfg song0 w0 =
             (Inr (song, None), w0\<lparr>trace := trace w0 @ evs @ [NotifyDownloadSkip]\<rparr>)"
proof -
  from prepare_world[OF assms(1)] obtain evs
    where w: "w = w0\<lparr>trace := trace w0 @ evs\<rparr>" and l: "list_all lookup_event evs" by blast
  from w have same: "path_exists w = path_exists w0" "known_songs w = known_songs w0"
    by (simp_all add: path_exists_def fun_eq_iff)
  from prepare_duplicates[OF assms(1)] assms(3) same
  have "path_exists w output_file \<or> dup_song_paths \<noteq> []"
    by (auto simp: filter_empty_conv)
  with assms(1,2) have "search_and_download env cfg song0 w0 =
      (Inr (song, None), emit NotifyDownloadSkip w)"
    by (simp add: search_and_download_def)
  with w l show ?thesis by (auto simp: emit_def)
qed

theorem skip_existing_witness:
  "prepare example_env example_settings example_song world_with_duplicates =
     (Inr (example_song, ''/m/A.mp3'', [''/old/a.mp3'', ''/old/b.mp3'']),
      world_with_duplicates\<lparr>trace := [GetLyrics (Some ''S'') [''A'']]\<rparr>)
   \<and> overwrite example_settings = ''skip''
   \<and> known_songs world_with_duplicates (url example_song) = Some [''/old/a.mp3'', ''/old/b.mp3'']
   \<and> path_exists world_with_duplicates ''/old/a.mp3''
   \<and> (\<exists>evs. list_all lookup_event evs \<and>
         search_and_download example_env example_settings example_song world_with_duplicates =
           (Inr (example_song, None),
            world_with_duplicates
              \<lparr>trace := trace world_with_duplicates @ evs @ [NotifyDownloadSkip]\<rparr>))"
proof -
  have h1: "prepare example_env example_settings example_song world_with_duplicates =
     (Inr (example_song, ''/m/A.mp3'', [''/old/a.mp3'', ''/old/b.mp3'']),
      world_with_duplicates\<lparr>trace := [GetLyrics (Some ''S'') [''A'']]\<rparr>)"
    by (simp add: pipeline_defs example_defs world_with_duplicates_def Let_def)
  have h2: "overwrite example_settings = ''skip''" by (simp add: example_defs)
  have k: "known_songs world_with_duplicates (url example_song) = Some [''/old/a.mp3'', ''/old/b.mp3'']"
    by (simp add: example_defs world_with_duplicates_def)
  have e: "path_exists world_with_duplicates ''/old/a.mp3''"
    by (simp add: path_exists_def example_defs world_with_duplicates_def)
  have h3: "path_exists world_with_duplicates ''/m/A.mp3'' \<or>
           (\<exists>p \<in> set (case known_songs world_with_duplicates (url example_song) of
                          None \<Rightarrow> [] | Some ps \<Rightarrow> ps).
              p \<noteq> ''/m/A.mp3'' \<and> path_exists world_with_duplicates p)"
    using k e by simp
  from skip_existing[OF h1 h2 h3] h1 h2 k e show ?thesis by blast
qed

text \<open>
  C2 as it is stated fails: the policy is \<open>skip\<close> and the output file is on disk,
  but the lyrics provider raises before the policy is looked at, so nothing is returned
  and the tracker is never told of a skip.
\<close>

theorem skip_needs_resolution:
  "overwrite example_settings = ''skip''
   \<and> path_exists world_with_output ''/m/A.mp3''
   \<and> fst (search_and_download env_lyrics_down example_settings example_song world_with_output) =
       Inl (PyExc ''ConnectionError'' ''genius'')
   \<and> trace (snd (search_and_download env_lyrics_down example_settings example_song
        world_with_output)) = [GetLyrics (Some ''S'') [''A'']]
   \<and> fst (search_and_download example_env example_settings example_song world_with_output) =
       Inr (example_song, None)"
  by (simp add: pipeline_defs example_defs env_lyrics_down_def world_with_output_def Let_def)

section \<open>The metadata policy\<close>

lemma try_unlink_files:
  "try_unlink env p w =
     w\<lparr>files := (if denied env p then files w else (files w)(p := None))\<rparr>"
  by (cases "files w p") (simp_all add: try_unlink_def unlink_def fun_upd_idem)

lemma remove_others_files:
  "remove_others env best ps w =
     w\<lparr>files := (\<lambda>p. if p \<in> set ps \<and> p \<noteq> best \<and> \<not> denied env p then None
                      else files w p)\<rparr>"
proof (induction ps arbitrary: w)
  case Nil
  then show ?case by simp
next
  case (Cons a ps)
  have ih: "\<And>w. remove_others env best ps w =
       w\<lparr>files := (\<lambda>p. if p \<in> set ps \<and> p \<noteq> best \<and> \<not> denied env p then None
                        else files w p)\<rparr>"
    by (rule Cons.IH)
  show ?case
  proof (cases "best = a \<or> denied env a")
    case True
    have fe: "(\<lambda>p. if p \<in> set ps \<and> p \<noteq> best \<and> \<not> denied env p then None else files w p) =
              (\<lambda>p. if p \<in> set (a # ps) \<and> p \<noteq> best \<and> \<not> denied env p then None
                     else files w p)"
      using True by (auto simp: fun_eq_iff)
    have "remove_others env best (a # ps) w = remove_others env best ps w"
      using True by (auto simp: try_unlink_files)
    also have "\<dots> = w\<lparr>files := (\<lambda>p. if p \<in> set ps \<and> p \<noteq> best \<and> \<not> denied env p then None
                        else files w p)\<rparr>"
      by (rule ih)
    finally show ?thesis unfolding fe .
  next
    case False
    have fe: "(\<lambda>p. if p \<in> set ps \<and> p \<noteq> best \<and> \<not> denied env p then None
                     else ((files w)(a := None)) p) =
              (\<lambda>p. if p \<in> set (a # ps) \<and> p \<noteq> best \<and> \<not> denied env p then None
                     else files w p)"
      using False by (auto simp: fun_eq_iff)
    have "remove_others env best (a # ps) w =
            remove_others env best ps (w\<lparr>files := (files w)(a := None)\<rparr>)"
      using False by (simp add: try_unlink_files)
    also have "\<dots> = (w\<lparr>files := (files w)(a := None)\<rparr>)
        \<lparr>files := (\<lambda>p. if p \<in> set ps \<and> p \<noteq> best \<and> \<not> denied env p then None
                        else ((files w)(a := None)) p)\<rparr>"
      by (simp add: ih cong: if_cong)
    finally show ?thesis unfolding fe by simp
  qed
qed

lemma max_mtime_best:
  assumes "stat_mtime w b = Inr t" and "\<forall>p\<in>set ps. files w p \<noteq> None"
  shows "\<exists>best tb. max_mtime w (b, t) ps = Inr best \<and> best \<in> set (b # ps) \<and>
           stat_mtime w best = Inr tb \<and> t \<le> tb \<and>
           (\<forall>p\<in>set ps. \<exists>tp. stat_mtime w p = Inr tp \<and> tp \<le> tb)"
  using assms
proof (induction ps arbitrary: b t)
  case Nil
  then show ?case by simp
next
  case (Cons a ps)
  from Cons.prems(2) obtain ta where ta: "stat_mtime w a = Inr ta"
    by (auto simp: stat_mtime_def split: option.splits)
  from Cons.prems(2) have rest: "\<forall>p\<in>set ps. files w p \<noteq> None" by simp
  show ?case
  proof (cases "t < ta")
    case True
    from Cons.IH[OF ta rest] obtain best tb where
      "max_mtime w (a, ta) ps = Inr best" "best \<in> set (a # ps)" "stat_mtime w best = Inr tb"
      "ta \<le> tb" "\<forall>p\<in>set ps. \<exists>tp. stat_mtime w p = Inr tp \<and> tp \<le> tb" by blast
    with True ta show ?thesis by (intro exI[of _ best] exI[of _ tb]) auto
  next
    case False
    from Cons.IH[OF Cons.prems(1) rest] obtain best tb where
      "max_mtime w (b, t) ps = Inr best" "best \<in> set (b # ps)" "stat_mtime w best = Inr tb"
      "t \<le> tb" "\<forall>p\<in>set ps. \<exists>tp. stat_mtime w p = Inr tp \<and> tp \<le> tb" by blast
    with False ta show ?thesis by (intro exI[of _ best] exI[of _ tb]) auto
  qed
qed

lemma most_recent_best:
  assumes "dups \<noteq> []" and "\<forall>p\<in>set dups. files w p \<noteq> None"
  shows "\<exists>best tb. most_recent w dups = Inr best \<and> best \<in> set dups \<and>
           stat_mtime w best = Inr tb \<and>
           (\<forall>p\<in>set dups. \<exists>tp. stat_mtime w p = Inr tp \<and> tp \<le> tb)"
proof -
  from assms(1) obtain b ps where d: "dups = b # ps" by (cases dups) auto
  with assms(2) obtain t where t: "stat_mtime w b = Inr t"
    by (auto simp: stat_mtime_def split: option.splits)
  from d assms(2) have "\<forall>p\<in>set ps. files w p \<noteq> None" by simp
  from max_mtime_best[OF t this] obtain best tb where
    "max_mtime w (b, t) ps = Inr best" "best \<in> set (b # ps)" "stat_mtime w best = Inr tb"
    "t \<le> tb" "\<forall>p\<in>set ps. \<exists>tp. stat_mtime w p = Inr tp \<and> tp \<le> tb" by blast
  with d t show ?thesis
    by (intro exI[of _ best] exI[of _ tb]) (auto simp: most_recent_def)
qed

lemma embed_succeeds:
  "fst (embed_metadata env out song (files w)) = Inr () \<Longrightarrow>
     embed env out song w =
       (Inr (), w\<lparr>files := snd (embed_metadata env out song (files w)),
                   trace := trace w @ [Embed out song]\<rparr>)"
  by (cases "embed_metadata env out song (files w)") (simp add: embed_def run_io_def emit_def)

lemma update_metadata_embeds:
  assumes "reconcile_duplicates env cfg output_file dups w = (Inr (), w\<lparr>files := fs\<rparr>)"
      and "fst (embed_metadata env output_file song fs) = Inr ()"
  shows "update_metadata env cfg song output_file dups w =
           (Inr (song, Some output_file),
            w\<lparr>files := snd (embed_metadata env output_file song fs),
               trace := trace w @ [Embed output_file song, NotifyComplete]\<rparr>)"
proof -
  from assms(2) have "fst (embed_metadata env output_file song (files (w\<lparr>files := fs\<rparr>))) = Inr ()"
    by simp
  from embed_succeeds[OF this] assms(1) show ?thesis
    by (simp add: update_metadata_def emit_def)
qed

lemma reconcile_duplicates_moves:
  assumes dups: "dups \<noteq> []"
      and ex: "\<forall>p\<in>set dups. files w p \<noteq> None \<and> p \<noteq> output_file"
      and sfx: "with_suffix output_file (''.'' @ format cfg) = Inr output_file"
      and ndo: "\<not> denied env output_file"
      and ndc: "\<forall>c. most_recent w dups = Inr c \<longrightarrow> \<not> denied env c"
  shows "\<exists>chosen tc. chosen \<in> set dups \<and> stat_mtime w chosen = Inr tc \<and>
           (\<forall>p\<in>set dups. \<exists>tp. stat_mtime w p = Inr tp \<and> tp \<le> tc) \<and>
           reconcile_duplicates env cfg output_file dups w =
             (Inr (), w\<lparr>files := reconciled (files w) dups (denied env) chosen output_file\<rparr>)"
proof -
  from ex have "\<forall>p\<in>set dups. files w p \<noteq> None" by simp
  from most_recent_best[OF dups this] obtain chosen tc where
    mr: "most_recent w dups = Inr chosen" and cin: "chosen \<in> set dups" and
    tc: "stat_mtime w chosen = Inr tc" and
    mx: "\<forall>p\<in>set dups. \<exists>tp. stat_mtime w p = Inr tp \<and> tp \<le> tc" by blast
  from mr ndc have nd: "\<not> denied env chosen" by simp
  define F1 where "F1 = (\<lambda>p. if p \<in> set dups \<and> p \<noteq> chosen \<and> \<not> denied env p then None
                            else files w p)"
  have ro: "remove_others env chosen dups w = w\<lparr>files := F1\<rparr>"
    unfolding F1_def by (rule remove_others_files)
  from cin ex obtain f where f: "files w chosen = Some f" by auto
  then have f1: "F1 chosen = Some f" by (simp add: F1_def)
  from cin ex have ne: "chosen \<noteq> output_file" by auto
  from ex have out: "output_file \<notin> set dups" by auto
  have fe: "(F1(chosen := None))(output_file \<mapsto> f) =
              reconciled (files w) dups (denied env) chosen output_file"
    using f ne out by (auto simp: F1_def reconciled_def fun_eq_iff)
  have rp: "replace_path env chosen output_file (w\<lparr>files := F1\<rparr>) =
              (Inr (), w\<lparr>files := reconciled (files w) dups (denied env) chosen output_file\<rparr>)"
    using f1 nd ndo fe by (simp add: replace_path_def)
  have "reconcile_duplicates env cfg output_file dups w =
          (Inr (), w\<lparr>files := reconciled (files w) dups (denied env) chosen output_file\<rparr>)"
    using dups mr ro sfx rp by (simp add: reconcile_duplicates_def Let_def)
  with cin tc mx show ?thesis by blast
qed

text \<open>
  C3, as amended. With the overwrite policy \<open>metadata\<close>, once the re-resolution, the
  lyrics lookup and the creation of the output path have returned, if the output file
  exists or there are duplicate candidates, the output path carries the suffix of the
  configured format, the operating system does not refuse the move of the chosen
  duplicate, and the embedder does not raise on the disk the reconciliation leaves,
  then: without duplicates the tags are written into the output file where it is;
  with duplicates one of them with the greatest modification time is chosen, every
  other duplicate is deleted unless the operating system refuses its removal (then it
  stays), the chosen one is moved to the output path, and the tags are written there.
  The song and the output path are returned, and the only calls made after the
  resolution are the embedding and the completion notice: nothing is searched, fetched
  or converted.
\<close>

theorem metadata_update:
  assumes "prepare env cfg song0 w0 = (Inr (song, output_file, dups), w)"
      and "overwrite cfg = ''metadata''"
      and "path_exists w output_file \<or> dups \<noteq> []"
      and "with_suffix output_file (''.'' @ format cfg) = Inr output_file"
      and "dups \<noteq> [] \<longrightarrow>
             \<not> denied env output_file \<and> (\<forall>c. most_recent w dups = Inr c \<longrightarrow> \<not> denied env c)"
      and "fst (embed_metadata env output_file song
                  (files (snd (reconcile_duplicates env cfg output_file dups w)))) = Inr ()"
  shows "\<exists>chosen tc fs.
           (dups = [] \<and> fs = files w \<or>
            dups \<noteq> [] \<and> chosen \<in> set dups \<and> stat_mtime w chosen = Inr tc \<and>
              (\<forall>p\<in>set dups. \<exists>tp. stat_mtime w p = Inr tp \<and> tp \<le> tc) \<and>
              fs = reconciled (files w) dups (denied env) chosen output_file) \<and>
           search_and_download env cfg song0 w0 =
             (Inr (song, Some output_file),
              w\<lparr>files := snd (embed_metadata env output_file song fs),
                 trace := trace w @ [Embed output_file song, NotifyComplete]\<rparr>)"
proof -
  have sad: "search_and_download env cfg song0 w0 =
               update_metadata env cfg song output_file dups w"
    using assms(1,2,3) by (simp add: search_and_download_def)
  show ?thesis
  proof (cases "dups = []")
    case True
    then have rc: "reconcile_duplicates env cfg output_file dups w = (Inr (), w\<lparr>files := files w\<rparr>)"
      by (simp add: reconcile_duplicates_def)
    with assms(6) have "fst (embed_metadata env output_file song (files w)) = Inr ()" by simp
    from update_metadata_embeds[OF rc this] sad True show ?thesis by auto
  next
    case False
    from prepare_duplicates[OF assms(1)]
    have ex: "\<forall>p\<in>set dups. files w p \<noteq> None \<and> p \<noteq> output_file"
      by (auto simp: path_exists_def)
    from False assms(5) have ndo: "\<not> denied env output_file"
      and ndc: "\<forall>c. most_recent w dups = Inr c \<longrightarrow> \<not> denied env c" by simp_all
    from reconcile_duplicates_moves[OF False ex assms(4) ndo ndc] obtain chosen tc where
      c: "chosen \<in> set dups" "stat_mtime w chosen = Inr tc"
         "\<forall>p\<in>set dups. \<exists>tp. stat_mtime w p = Inr tp \<and> tp \<le> tc" and
      rc: "reconcile_duplicates env cfg output_file dups w =
             (Inr (), w\<lparr>files := reconciled (files w) dups (denied env) chosen output_file\<rparr>)"
      by blast
    from rc assms(6) have "fst (embed_metadata env output_file song
        (reconciled (files w) dups (denied env) chosen output_file)) = Inr ()" by simp
    from update_metadata_embeds[OF rc this] sad False c show ?thesis by metis
  qed
qed

theorem metadata_update_witness:
  "prepare env_refusing metadata_settings example_song world_with_duplicates =
     (Inr (example_song, ''/m/A.mp3'', [''/old/a.mp3'', ''/old/b.mp3'']),
      world_with_duplicates\<lparr>trace := [GetLyrics (Some ''S'') [''A'']]\<rparr>)
   \<and> overwrite metadata_settings = ''metadata''
   \<and> with_suffix ''/m/A.mp3'' (''.'' @ format metadata_settings) = Inr ''/m/A.mp3''
   \<and> \<not> denied env_refusing ''/m/A.mp3''
   \<and> most_recent (world_with_duplicates\<lparr>trace := [GetLyrics (Some ''S'') [''A'']]\<rparr>)
        [''/old/a.mp3'', ''/old/b.mp3''] = Inr ''/old/b.mp3''
   \<and> \<not> denied env_refusing ''/old/b.mp3''
   \<and> denied env_refusing ''/old/a.mp3''
   \<and> (\<exists>chosen tc fs.
         chosen \<in> set [''/old/a.mp3'', ''/old/b.mp3''] \<and>
         stat_mtime (world_with_duplicates\<lparr>trace := [GetLyrics (Some ''S'') [''A'']]\<rparr>) chosen = Inr tc \<and>
         fs = reconciled (files world_with_duplicates) [''/old/a.mp3'', ''/old/b.mp3'']
                (denied env_refusing) chosen ''/m/A.mp3'' \<and>
         search_and_download env_refusing metadata_settings example_song world_with_duplicates =
           (Inr (example_song, Some ''/m/A.mp3''),
            world_with_duplicates
              \<lparr>files := snd (embed_metadata env_refusing ''/m/A.mp3'' example_song fs),
               trace := [GetLyrics (Some ''S'') [''A''], Embed ''/m/A.mp3'' example_song,
                         NotifyComplete]\<rparr>))
   \<and> map (files (snd (search_and_download env_refusing metadata_settings example_song
          world_with_duplicates))) [''/m/A.mp3'', ''/old/a.mp3'', ''/old/b.mp3''] =
       [Some \<lparr>st_mtime = 5, data = Text ''b''\<rparr>, Some \<lparr>st_mtime = 1, data = Text ''a''\<rparr>, None]"
proof -
  let ?w = "world_with_duplicates\<lparr>trace := [GetLyrics (Some ''S'') [''A'']]\<rparr>"
  let ?dups = "[''/old/a.mp3'', ''/old/b.mp3'']"
  have h1: "prepare env_refusing metadata_settings example_song world_with_duplicates =
     (Inr (example_song, ''/m/A.mp3'', ?dups), ?w)"
    by (simp add: pipeline_defs example_defs env_refusing_def world_with_duplicates_def
          metadata_settings_def Let_def)
  have h2: "overwrite metadata_settings = ''metadata''"
    by (simp add: metadata_settings_def)
  have h3: "path_exists ?w ''/m/A.mp3'' \<or> ?dups \<noteq> []" by simp
  have h4: "with_suffix ''/m/A.mp3'' (''.'' @ format metadata_settings) = Inr ''/m/A.mp3''"
    by (simp add: with_suffix_def path_name_def path_suffix_def metadata_settings_def
          example_defs Let_def)
  have d1: "\<not> denied env_refusing ''/m/A.mp3''" and d2: "\<not> denied env_refusing ''/old/b.mp3''"
    and d3: "denied env_refusing ''/old/a.mp3''"
    by (simp_all add: env_refusing_def example_defs)
  have mr: "most_recent ?w ?dups = Inr ''/old/b.mp3''"
    by (simp add: most_recent_def stat_mtime_def world_with_duplicates_def example_defs)
  have h5: "?dups \<noteq> [] \<longrightarrow> \<not> denied env_refusing ''/m/A.mp3'' \<and>
      (\<forall>c. most_recent ?w ?dups = Inr c \<longrightarrow> \<not> denied env_refusing c)"
    using d1 d2 mr by simp
  have h6: "fst (embed_metadata env_refusing ''/m/A.mp3'' example_song
      (files (snd (reconcile_duplicates env_refusing metadata_settings ''/m/A.mp3'' ?dups ?w)))) =
      Inr ()"
    by (simp add: pipeline_defs example_defs env_refusing_def world_with_duplicates_def
          metadata_settings_def with_suffix_def path_name_def path_suffix_def Let_def)
  have ev: "map (files (snd (search_and_download env_refusing metadata_settings example_song
          world_with_duplicates))) [''/m/A.mp3'', ''/old/a.mp3'', ''/old/b.mp3''] =
       [Some \<lparr>st_mtime = 5, data = Text ''b''\<rparr>, Some \<lparr>st_mtime = 1, data = Text ''a''\<rparr>, None]"
    by (simp add: pipeline_defs example_defs env_refusing_def world_with_duplicates_def
          metadata_settings_def with_suffix_def path_name_def path_suffix_def Let_def)
  from metadata_update[OF h1 h2 h3 h4 h5 h6]
  have "\<exists>chosen tc fs.
         chosen \<in> set ?dups \<and>
         stat_mtime ?w chosen = Inr tc \<and>
         fs = reconciled (files world_with_duplicates) ?dups (denied env_refusing) chosen ''/m/A.mp3'' \<and>
         search_and_download env_refusing metadata_settings example_song world_with_duplicates =
           (Inr (example_song, Some ''/m/A.mp3''),
            world_with_duplicates
              \<lparr>files := snd (embed_metadata env_refusing ''/m/A.mp3'' example_song fs),
               trace := [GetLyrics (Some ''S'') [''A''], Embed ''/m/A.mp3'' example_song,
                         NotifyComplete]\<rparr>)"
    by (auto simp: world_with_duplicates_def example_world_def)
  with h1 h2 h4 d1 d2 d3 mr ev show ?thesis by blast
qed

text \<open>
  C3 as it is stated fails. The operating system refuses to remove the older duplicate:
  the refusal is swallowed, the song and the output path are returned, and the
  duplicate is still on disk. And a lyrics provider that raises, or an embedder that
  raises, leaves the call with an exception instead of the pair.
\<close>

theorem metadata_duplicate_survives:
  "overwrite metadata_settings = ''metadata''
   \<and> fst (search_and_download env_refusing metadata_settings example_song
            world_with_duplicates) = Inr (example_song, Some ''/m/A.mp3'')
   \<and> files (snd (search_and_download env_refusing metadata_settings example_song
        world_with_duplicates)) ''/old/a.mp3'' = Some \<lparr>st_mtime = 1, data = Text ''a''\<rparr>
   \<and> fst (search_and_download env_lyrics_down metadata_settings example_song
            world_with_duplicates) = Inl (PyExc ''ConnectionError'' ''genius'')"
  by (simp add: pipeline_defs example_defs env_refusing_def env_lyrics_down_def
        world_with_duplicates_def metadata_settings_def with_suffix_def path_name_def
        path_suffix_def Let_def)

section \<open>A failed conversion\<close>

lemma report_failure_written:
  assumes "\<not> denied env (report_name env)" and "\<not> denied env output_file"
      and "report_name env \<noteq> output_file"
  shows "\<exists>w4. report_failure env song output_file d w3 =
           (PyExc ''FFmpegError''
              (''Failed to convert '' @ display_name env song
                 @ '', you can find error here: '' @ report_name env), w4) \<and>
         files w4 (report_name env) = Some \<lparr>st_mtime = clock env, data = Text (error_message d)\<rparr> \<and>
         files w4 output_file = None"
proof -
  let ?f = "\<lparr>st_mtime = clock env, data = Text (error_message d)\<rparr>"
  let ?w1 = "w3\<lparr>files := (files w3)(report_name env \<mapsto> ?f)\<rparr>"
  have wr: "write_file env (report_name env) (Text (error_message d)) w3 = (Inr (), ?w1)"
    using assms(1) by (simp add: write_file_def)
  show ?thesis
  proof (cases "path_exists ?w1 output_file")
    case True
    then have "unlink env output_file ?w1 = (Inr (), ?w1\<lparr>files := (files ?w1)(output_file := None)\<rparr>)"
      using assms(2) by (simp add: unlink_def path_exists_def)
    with wr True assms(3) show ?thesis
      by (simp add: report_failure_def)
  next
    case False
    with wr assms(3) show ?thesis
      by (simp add: report_failure_def path_exists_def)
  qed
qed

text \<open>
  C6, as amended. When the \<open>try\<close> is entered, the audio is fetched, the transcoder
  reports failure together with a non-empty dictionary of diagnostics, the temporary
  file is removed, and the operating system refuses neither the writing of the report
  nor the removal of the output file, then the report is on disk in the errors
  directory under the name \<open>ffmpeg_error_\<close>, the time, \<open>.txt\<close>, holding the
  diagnostics; no file is left at the output path; and the track fails: the song comes
  back with \<open>None\<close> and the error list gains one \<open>FFmpegError\<close> line that ends with
  the path of the report.
\<close>

theorem conversion_failure_reported:
  assumes "enters_try env cfg song0 w0 = Some (song, output_file, w)"
      and "acquire env song w = (Inr (link, info, temp_file), w1)"
      and "transcode env cfg info temp_file output_file w1 = (Inr (False, Some d), w2)"
      and "d \<noteq> []"
      and "remove_temp env temp_file w2 = (Inr (), w3)"
      and "\<not> denied env (report_name env)"
      and "\<not> denied env output_file"
      and "report_name env \<noteq> output_file"
  shows "\<exists>w'. search_and_download env cfg song0 w0 = (Inr (song, None), w') \<and>
           files w' (get_errors_path env @ ''/ffmpeg_error_'' @ now env @ ''.txt'') =
             Some \<lparr>st_mtime = clock env, data = Text (error_message d)\<rparr> \<and>
           files w' output_file = None \<and>
           errors w' = errors w0 @
             [url song @ '' - FFmpegError: Failed to convert '' @ display_name env song
                @ '', you can find error here: ''
                @ get_errors_path env @ ''/ffmpeg_error_'' @ now env @ ''.txt'']"
proof -
  let ?e = "PyExc ''FFmpegError''
              (''Failed to convert '' @ display_name env song
                 @ '', you can find error here: '' @ report_name env)"
  from report_failure_written[OF assms(6,7,8)] obtain w4 where
    rf: "report_failure env song output_file d w3 = (?e, w4)" and
    f1: "files w4 (report_name env) = Some \<lparr>st_mtime = clock env, data = Text (error_message d)\<rparr>" and
    f2: "files w4 output_file = None" by blast
  have fd: "failure_diagnostics False (Some d) = Some d"
    using assms(4) by (simp add: failure_diagnostics_def)
  have dl: "download env cfg song output_file w = (Inl (?e, song), w4)"
    using assms(2,3,5) fd rf by (simp add: download_def)
  from download_effect[OF dl] have e4: "errors w4 = errors w" by simp
  from enters_try_unfold[OF assms(1)] dl
  have e0: "errors w = errors w0"
    and sad: "search_and_download env cfg song0 w0 = on_exception song ?e w4" by simp_all
  have rep: "reported ?e = ?e" by (simp add: reported_def)
  let ?w' = "(emit (NotifyError ?e) w4)\<lparr>errors := errors w4 @ [error_line song ?e]\<rparr>"
  from sad rep have "search_and_download env cfg song0 w0 = (Inr (song, None), ?w')"
    by (simp add: on_exception_def Let_def emit_def)
  moreover have "files ?w' (report_name env) = Some \<lparr>st_mtime = clock env, data = Text (error_message d)\<rparr>"
    using f1 by (simp add: emit_def)
  moreover have "files ?w' output_file = None" using f2 by (simp add: emit_def)
  moreover have "errors ?w' = errors w0 @
             [url song @ '' - FFmpegError: Failed to convert '' @ display_name env song
                @ '', you can find error here: '' @ report_name env]"
    using e4 e0 by (simp add: error_line_def)
  ultimately show ?thesis unfolding report_name_def by blast
qed

theorem conversion_failure_reported_witness:
  "enters_try env_convert_fails example_settings example_song example_world =
     Some (example_song, ''/m/A.mp3'', example_world\<lparr>trace := [GetLyrics (Some ''S'') [''A'']]\<rparr>)
   \<and> fst (acquire env_convert_fails example_song
            (example_world\<lparr>trace := [GetLyrics (Some ''S'') [''A'']]\<rparr>)) =
       Inr (''yt/v'', example_info, ''/tmp/v.webm'')
   \<and> \<not> denied env_convert_fails ''/err/ffmpeg_error_T.txt''
   \<and> \<not> denied env_convert_fails ''/m/A.mp3''
   \<and> fst (search_and_download env_convert_fails example_settings example_song example_world) =
       Inr (example_song, None)
   \<and> map (files (snd (search_and_download env_convert_fails example_settings example_song
          example_world))) [''/err/ffmpeg_error_T.txt'', ''/m/A.mp3'', ''/tmp/v.webm''] =
       [Some \<lparr>st_mtime = 7, data = Text (''### error:'' @ [CHR 0x0A] @ ''boom'' @ [CHR 0x0A, CHR 0x0A])\<rparr>,
        None, None]
   \<and> errors (snd (search_and_download env_convert_fails example_settings example_song
          example_world)) =
       [''sp/1 - FFmpegError: Failed to convert A - S, you can find error here: /err/ffmpeg_error_T.txt'']"
proof -
  let ?w = "example_world\<lparr>trace := [GetLyrics (Some ''S'') [''A'']]\<rparr>"
  let ?raw = "\<lparr>st_mtime = 7, data = Text ''raw''\<rparr>"
  let ?part = "\<lparr>st_mtime = 7, data = Text ''part''\<rparr>"
  let ?w1 = "example_world\<lparr>files := [''/tmp/v.webm'' \<mapsto> ?raw],
     trace := [GetLyrics (Some ''S'') [''A''], AudioSearch example_song, Fetch ''yt/v'',
               NotifyDownloadComplete]\<rparr>"
  let ?w2 = "example_world\<lparr>files := [''/tmp/v.webm'' \<mapsto> ?raw, ''/m/A.mp3'' \<mapsto> ?part],
     trace := [GetLyrics (Some ''S'') [''A''], AudioSearch example_song, Fetch ''yt/v'',
               NotifyDownloadComplete, Transcode ''/tmp/v.webm'' ''/m/A.mp3'' (Some ''128k'')]\<rparr>"
  let ?w3 = "example_world\<lparr>files := ([''/tmp/v.webm'' \<mapsto> ?raw, ''/m/A.mp3'' \<mapsto> ?part])(''/tmp/v.webm'' := None),
     trace := [GetLyrics (Some ''S'') [''A''], AudioSearch example_song, Fetch ''yt/v'',
               NotifyDownloadComplete, Transcode ''/tmp/v.webm'' ''/m/A.mp3'' (Some ''128k'')]\<rparr>"
  have h1: "enters_try env_convert_fails example_settings example_song example_world =
     Some (example_song, ''/m/A.mp3'', ?w)"
    by (simp add: pipeline_defs example_defs env_convert_fails_def Let_def)
  have h2: "acquire env_convert_fails example_song ?w = (Inr (''yt/v'', example_info, ''/tmp/v.webm''), ?w1)"
    by (simp add: pipeline_defs example_defs env_convert_fails_def Let_def)
  have h3: "transcode env_convert_fails example_settings example_info ''/tmp/v.webm'' ''/m/A.mp3'' ?w1 =
      (Inr (False, Some [(''error'', '' boom '')]), ?w2)"
    by (simp add: pipeline_defs example_defs env_convert_fails_def Let_def)
  have h4: "[(''error'', '' boom '')] \<noteq> []" by simp
  have h5: "remove_temp env_convert_fails ''/tmp/v.webm'' ?w2 = (Inr (), ?w3)"
    by (simp add: pipeline_defs example_defs env_convert_fails_def Let_def)
  have h6: "\<not> denied env_convert_fails (report_name env_convert_fails)"
    and h7: "\<not> denied env_convert_fails ''/m/A.mp3''"
    and h8: "report_name env_convert_fails \<noteq> ''/m/A.mp3''"
    by (simp_all add: report_name_def example_defs env_convert_fails_def)
  have em: "error_message [(''error'', '' boom '')] =
      ''### error:'' @ [CHR 0x0A] @ ''boom'' @ [CHR 0x0A, CHR 0x0A]"
    by (simp add: error_message_def strip_def is_space_def)
  from conversion_failure_reported[OF h1 h2 h3 h4 h5 h6 h7 h8] obtain w' where
    "search_and_download env_convert_fails example_settings example_song example_world =
       (Inr (example_song, None), w')"
    "files w' ''/err/ffmpeg_error_T.txt'' =
       Some \<lparr>st_mtime = 7, data = Text (error_message [(''error'', '' boom '')])\<rparr>"
    "files w' ''/m/A.mp3'' = None"
    "errors w' =
       [''sp/1 - FFmpegError: Failed to convert A - S, you can find error here: /err/ffmpeg_error_T.txt'']"
    by (auto simp: example_defs env_convert_fails_def)
  moreover have "files (snd (search_and_download env_convert_fails example_settings example_song
          example_world)) ''/tmp/v.webm'' = None"
    by (simp add: pipeline_defs example_defs env_convert_fails_def Let_def)
  ultimately show ?thesis using h1 h2 h6 h7 em
    by (simp add: report_name_def example_defs env_convert_fails_def)
qed

text \<open>
  C6 as it is stated fails: a transcoder that reports failure without diagnostics
  (\<open>(False, None)\<close>) gets no report, and the track does not fail: the pipeline goes
  on to the embedding and returns the output path.
\<close>

theorem silent_conversion_failure:
  "fst (convert env_silent_failure ''/tmp/v.webm'' ''/m/A.mp3'' (Some ''128k'')
          [''/tmp/v.webm'' \<mapsto> \<lparr>st_mtime = 7, data = Text ''raw''\<rparr>]) = Inr (False, None)
   \<and> fst (search_and_download env_silent_failure example_settings example_song example_world) =
       Inr (example_song\<lparr>download_url := Some ''yt/v''\<rparr>, Some ''/m/A.mp3'')
   \<and> files (snd (search_and_download env_silent_failure example_settings example_song
        example_world)) (report_name env_silent_failure) = None
   \<and> errors (snd (search_and_download env_silent_failure example_settings example_song
        example_world)) = []"
  by (simp add: pipeline_defs example_defs env_silent_failure_def Let_def)

section \<open>The results of a batch\<close>

lemmas batch_defs = download_multiple_songs_def gather_def schedule_def scheduled_def
  after_batch_def archive_results_def save_file_document_def

lemma schedule_permutes: "distinct (schedule order n) \<and> set (schedule order n) = {0..<n}"
  by (auto simp: schedule_def)

lemma run_units_finished:
  "run_units env cfg songs order w = (Inr finished, w') \<Longrightarrow>
     map fst finished = order \<and>
     list_all (\<lambda>ir. \<exists>w1 w2. search_and_download env cfg (songs ! fst ir) w1 = (Inr (snd ir), w2))
       finished"
proof (induction order arbitrary: w w' finished)
  case Nil
  then show ?case by simp
next
  case (Cons i rest)
  obtain r1 w1 where u: "search_and_download env cfg (songs ! i) w = (r1, w1)"
    by (cases "search_and_download env cfg (songs ! i) w")
  show ?case
  proof (cases r1)
    case (Inl e)
    with u Cons.prems show ?thesis by simp
  next
    case (Inr r)
    obtain r2 w2 where v: "run_units env cfg songs rest w1 = (r2, w2)"
      by (cases "run_units env cfg songs rest w1")
    show ?thesis
    proof (cases r2)
      case (Inl e)
      with u Inr v Cons.prems show ?thesis by simp
    next
      case r2: (Inr fin)
      with u Inr v Cons.prems have f: "finished = (i, r) # fin" by simp
      from Cons.IH[OF v[unfolded r2]] u Inr f show ?thesis by auto
    qed
  qed
qed

lemma run_units_raises:
  "run_units env cfg songs order w = (Inl e, w') \<Longrightarrow>
     \<exists>i\<in>set order. \<exists>w1 w2. search_and_download env cfg (songs ! i) w1 = (Inl e, w2)"
proof (induction order arbitrary: w w')
  case Nil
  then show ?case by simp
next
  case (Cons i rest)
  obtain r1 w1 where u: "search_and_download env cfg (songs ! i) w = (r1, w1)"
    by (cases "search_and_download env cfg (songs ! i) w")
  show ?case
  proof (cases r1)
    case (Inl e1)
    with u Cons.prems have "e1 = e" by simp
    with u Inl show ?thesis by auto
  next
    case (Inr r)
    obtain r2 w2 where v: "run_units env cfg songs rest w1 = (r2, w2)"
      by (cases "run_units env cfg songs rest w1")
    show ?thesis
    proof (cases r2)
      case (Inl e2)
      with u Inr v Cons.prems have "run_units env cfg songs rest w1 = (Inl e, w2)" by simp
      from Cons.IH[OF this] show ?thesis by auto
    next
      case r2: (Inr fin)
      with u Inr v Cons.prems show ?thesis by simp
    qed
  qed
qed

lemma distinct_map_sort_key: "distinct (map f (sort_key f xs)) = distinct (map f xs)"
  by (induction xs) (simp_all add: distinct_insort_key)

lemma sort_key_indices:
  assumes "distinct (map fst xs)" and "set (map fst xs) = {0..<n}"
  shows "map fst (sort_key fst xs) = [0..<n]"
proof (rule sorted_distinct_set_unique)
  show "sorted (map fst (sort_key fst xs))" by simp
  show "distinct (map fst (sort_key fst xs))" using assms(1) by (simp add: distinct_map_sort_key)
  show "sorted [0..<n]" by simp
  show "distinct [0..<n]" by simp
  show "set (map fst (sort_key fst xs)) = set [0..<n]" using assms(2) by simp
qed

lemma gather_results:
  assumes "gather env cfg order songs w = (Inr results, w')"
  shows "length results = length songs \<and>
         (\<forall>i<length songs. \<exists>w1 w2.
            search_and_download env cfg (songs ! i) w1 = (Inr (results ! i), w2))"
proof -
  let ?n = "length songs"
  obtain r1 w1 where u: "run_units env cfg songs (schedule order ?n) w = (r1, w1)"
    by (cases "run_units env cfg songs (schedule order ?n) w")
  from u assms obtain finished where r1: "r1 = Inr finished"
    and res: "results = map snd (sort_key fst finished)"
    by (cases r1) (auto simp: gather_def)
  from run_units_finished[OF u[unfolded r1]]
  have keys: "map fst finished = schedule order ?n"
    and each: "list_all (\<lambda>ir. \<exists>w1 w2. search_and_download env cfg (songs ! fst ir) w1 =
                 (Inr (snd ir), w2)) finished" by simp_all
  let ?ys = "sort_key fst finished"
  from keys schedule_permutes[of order ?n]
  have "distinct (map fst finished)" "set (map fst finished) = {0..<?n}" by simp_all
  then have idx: "map fst ?ys = [0..<?n]" by (rule sort_key_indices)
  then have len: "length ?ys = ?n" by (metis length_map length_upt minus_nat.diff_0)
  have "\<exists>w1 w2. search_and_download env cfg (songs ! i) w1 = (Inr (results ! i), w2)"
    if i: "i < ?n" for i
  proof -
    from i len have m: "?ys ! i \<in> set finished" by (metis nth_mem set_sort)
    from idx i len have "fst (?ys ! i) = i" by (metis nth_map nth_upt add_0)
    moreover from res i len have "results ! i = snd (?ys ! i)" by simp
    ultimately show ?thesis using each m unfolding list_all_iff by metis
  qed
  with res len show ?thesis by simp
qed

lemma gather_raises:
  assumes "gather env cfg order songs w = (Inl e, w')"
  shows "\<exists>i<length songs. \<exists>w1 w2. search_and_download env cfg (songs ! i) w1 = (Inl e, w2)"
proof -
  let ?n = "length songs"
  obtain r1 w1 where u: "run_units env cfg songs (schedule order ?n) w = (r1, w1)"
    by (cases "run_units env cfg songs (schedule order ?n) w")
  from u assms have "r1 = Inl e" by (cases r1) (auto simp: gather_def)
  from run_units_raises[OF u[unfolded this]] obtain i w1 w2
    where "i \<in> set (schedule order ?n)"
      and "search_and_download env cfg (songs ! i) w1 = (Inl e, w2)" by blast
  moreover from this(1) schedule_permutes[of order ?n] have "i < ?n" by simp
  ultimately show ?thesis by blast
qed

text \<open>
  C10. Whatever the order in which the units of work run, a call of
  \<open>download_multiple_songs\<close> that returns gives back a list with one pair for each
  scheduled song, and the pair at position \<open>i\<close> is what \<open>search_and_download\<close>
  returned for the \<open>i\<close>-th scheduled song. The call does not return only when an
  exception leaves the unit of work of a scheduled song, or the steps that follow the
  batch (archive, playlist, save file).
\<close>

theorem results_follow_input_order:
  "(case fst (download_multiple_songs env cfg order songs0 w0) of
      Inr results \<Rightarrow>
        length results = length (scheduled cfg w0 songs0) \<and>
        (\<forall>i<length results. \<exists>w1 w2.
           search_and_download env cfg (scheduled cfg w0 songs0 ! i) w1 = (Inr (results ! i), w2))
    | Inl e \<Rightarrow>
        (\<exists>i<length (scheduled cfg w0 songs0). \<exists>w1 w2.
           search_and_download env cfg (scheduled cfg w0 songs0 ! i) w1 = (Inl e, w2)) \<or>
        (\<exists>results w1 w2. after_batch env cfg results w1 = (Inl e, w2)))"
proof -
  let ?songs = "scheduled cfg w0 songs0"
  let ?w = "emit (SetSongCount (length ?songs)) w0"
  obtain r1 w1 where g: "gather env cfg order ?songs ?w = (r1, w1)"
    by (cases "gather env cfg order ?songs ?w")
  show ?thesis
  proof (cases r1)
    case (Inl e)
    with g have "fst (download_multiple_songs env cfg order songs0 w0) = Inl e"
      by (simp add: download_multiple_songs_def Let_def)
    with gather_raises[OF g[unfolded Inl]] show ?thesis by simp
  next
    case (Inr results)
    obtain r2 w2 where a: "after_batch env cfg results w1 = (r2, w2)"
      by (cases "after_batch env cfg results w1")
    show ?thesis
    proof (cases r2)
      case (Inl e)
      with g Inr a have "fst (download_multiple_songs env cfg order songs0 w0) = Inl e"
        by (simp add: download_multiple_songs_def Let_def)
      with a Inl show ?thesis by auto
    next
      case r2: (Inr u)
      with g Inr a have "fst (download_multiple_songs env cfg order songs0 w0) = Inr results"
        by (simp add: download_multiple_songs_def Let_def)
      with gather_results[OF g[unfolded Inr]] show ?thesis by simp
    qed
  qed
qed


theorem results_follow_input_order_witness:
  "scheduled example_settings example_world [example_song, other_song] =
     [example_song, other_song]
   \<and> schedule [1, 0] 2 = [1, 0]
   \<and> fst (download_multiple_songs example_env example_settings [1, 0]
            [example_song, other_song] example_world) =
       Inr [(example_song\<lparr>download_url := Some ''yt/v''\<rparr>, Some ''/m/A.mp3''),
            (other_song\<lparr>download_url := Some ''yt/v''\<rparr>, Some ''/m/B.mp3'')]
   \<and> (\<exists>w1 w2. search_and_download example_env example_settings example_song w1 =
         (Inr (example_song\<lparr>download_url := Some ''yt/v''\<rparr>, Some ''/m/A.mp3''), w2))
   \<and> (\<exists>w1 w2. search_and_download example_env example_settings other_song w1 =
         (Inr (other_song\<lparr>download_url := Some ''yt/v''\<rparr>, Some ''/m/B.mp3''), w2))"
proof -
  let ?rA = "(example_song\<lparr>download_url := Some ''yt/v''\<rparr>, Some ''/m/A.mp3'')"
  let ?rB = "(other_song\<lparr>download_url := Some ''yt/v''\<rparr>, Some ''/m/B.mp3'')"
  define W0 where
    "W0 = emit (SetSongCount (length [example_song, other_song])) example_world"
  define WB where "WB = snd (search_and_download example_env example_settings other_song W0)"
  define WA where "WA = snd (search_and_download example_env example_settings example_song WB)"
  have s: "scheduled example_settings example_world [example_song, other_song] =
     [example_song, other_song]"
    by (simp add: scheduled_def example_defs truthy_def)
  have o: "schedule [1, 0] 2 = [1, 0]"
    by (simp add: schedule_def upt_rec)
  have "fst (search_and_download example_env example_settings other_song W0) = Inr ?rB"
    unfolding W0_def by (simp add: pipeline_defs example_defs other_song_def Let_def)
  then have e1: "search_and_download example_env example_settings other_song W0 = (Inr ?rB, WB)"
    by (simp add: WB_def prod_eq_iff)
  have "fst (search_and_download example_env example_settings example_song WB) = Inr ?rA"
    unfolding WB_def W0_def by (simp add: pipeline_defs example_defs other_song_def Let_def)
  then have e2: "search_and_download example_env example_settings example_song WB = (Inr ?rA, WA)"
    by (simp add: WA_def prod_eq_iff)
  have ru: "run_units example_env example_settings [example_song, other_song] [1, 0] W0 =
      (Inr [(1, ?rB), (0, ?rA)], WA)"
    by (simp add: e1 e2)
  have g: "gather example_env example_settings [1, 0] [example_song, other_song] W0 =
      (Inr [?rA, ?rB], WA)"
  proof -
    have len: "length [example_song, other_song] = 2" by simp
    show ?thesis unfolding gather_def len o ru by simp
  qed
  have ab: "fst (after_batch example_env example_settings [?rA, ?rB] WA) = Inr ()"
    by (simp add: after_batch_def example_settings_def)
  have r: "fst (download_multiple_songs example_env example_settings [1, 0]
            [example_song, other_song] example_world) = Inr [?rA, ?rB]"
  proof -
    have w: "emit (SetSongCount (length [example_song, other_song])) example_world = W0"
      by (simp only: W0_def)
    define WF where "WF = snd (after_batch example_env example_settings [?rA, ?rB] WA)"
    from ab have ab': "after_batch example_env example_settings [?rA, ?rB] WA = (Inr (), WF)"
      by (simp add: prod_eq_iff WF_def)
    show ?thesis
      unfolding download_multiple_songs_def s Let_def w g by (simp add: ab')
  qed
  from results_follow_input_order[where env = example_env and cfg = example_settings
      and order = "[1, 0]" and ?songs0.0 = "[example_song, other_song]"
      and ?w0.0 = example_world]
  have "\<forall>i<2. \<exists>w1 w2. search_and_download example_env example_settings
           ([example_song, other_song] ! i) w1 = (Inr ([?rA, ?rB] ! i), w2)"
    unfolding r s by simp
  from this[rule_format, of 0] this[rule_format, of 1] s o r show ?thesis by simp
qed

section \<open>The save file\<close>

lemma download_multiple_songs_returns:
  assumes "download_multiple_songs env cfg order songs0 w0 = (Inr results, w')"
  shows "\<exists>w1. gather env cfg order (scheduled cfg w0 songs0)
                 (emit (SetSongCount (length (scheduled cfg w0 songs0))) w0) = (Inr results, w1) \<and>
              after_batch env cfg results w1 = (Inr (), w')"
proof -
  let ?songs = "scheduled cfg w0 songs0"
  let ?w = "emit (SetSongCount (length ?songs)) w0"
  obtain r1 w1 where g: "gather env cfg order ?songs ?w = (r1, w1)"
    by (cases "gather env cfg order ?songs ?w")
  show ?thesis
  proof (cases r1)
    case (Inl e)
    with g assms show ?thesis by (simp add: download_multiple_songs_def Let_def)
  next
    case (Inr res)
    obtain r2 w2 where a: "after_batch env cfg res w1 = (r2, w2)"
      by (cases "after_batch env cfg res w1")
    from g Inr a assms show ?thesis
      by (cases r2) (simp_all add: download_multiple_songs_def Let_def)
  qed
qed

lemma after_batch_saves:
  assumes "after_batch env cfg results w = (Inr u, w')" and "save_file cfg = Some f" and "f \<noteq> []"
  shows "files w' f = Some \<lparr>st_mtime = clock env, data = JsonDoc (save_file_document env results)\<rparr>"
proof -
  define A where "A = (case archive cfg of
              None \<Rightarrow> (Inr (), w)
            | Some a \<Rightarrow>
                if a = [] then (Inr (), w)
                else (let w1 = archive_results results w
                      in run_io (archive_save env (url_archive w1) a) w1))"
  obtain rA wA where A: "A = (rA, wA)" by (cases A)
  show ?thesis
  proof (cases rA)
    case (Inl e)
    with A assms(1) show ?thesis by (simp add: after_batch_def A_def[symmetric])
  next
    case (Inr ua)
    define M where "M = (case m3u cfg of
                   None \<Rightarrow> (Inr (), wA)
                 | Some m \<Rightarrow>
                     if m = [] then (Inr (), wA)
                     else run_io (gen_m3u_files env (map fst results) m
                                    (output_template cfg) (format cfg)) wA)"
    obtain rM wM where M: "M = (rM, wM)" by (cases M)
    show ?thesis
    proof (cases rM)
      case (Inl e)
      with A Inr M assms(1) show ?thesis
        by (simp add: after_batch_def A_def[symmetric] M_def[symmetric])
    next
      case rM: (Inr um)
      with A Inr M assms have
        "write_file env f (JsonDoc (save_file_document env results)) wM = (Inr u, w')"
        by (simp add: after_batch_def A_def[symmetric] M_def[symmetric])
      then show ?thesis by (auto simp: write_file_def split: if_splits)
    qed
  qed
qed

text \<open>
  C8, as amended. When a save file is configured and \<open>download_multiple_songs\<close>
  returns, the file holds a JSON array with, for each result in order, the record
  \<open>song.json\<close> of its song, and nothing else: the output paths are not written and a
  failed track is not marked.
\<close>

theorem save_file_holds_track_records:
  assumes "download_multiple_songs env cfg order songs0 w0 = (Inr results, w')"
      and "save_file cfg = Some f" and "f \<noteq> []"
  shows "files w' f =
           Some \<lparr>st_mtime = clock env,
                 data = JsonDoc (JArr (map (\<lambda>r. song_json env (fst r)) results))\<rparr>"
proof -
  from download_multiple_songs_returns[OF assms(1)] obtain w1
    where "after_batch env cfg results w1 = (Inr (), w')" by blast
  from after_batch_saves[OF this assms(2,3)] show ?thesis
    by (simp add: save_file_document_def)
qed

theorem save_file_holds_track_records_witness:
  "fst (download_multiple_songs env_no_match save_settings [] [example_song] example_world) =
     Inr [(example_song, None)]
   \<and> save_file save_settings = Some ''/save''
   \<and> files (snd (download_multiple_songs env_no_match save_settings [] [example_song]
        example_world)) ''/save'' =
       Some \<lparr>st_mtime = clock env_no_match,
             data = JsonDoc (JArr (map (\<lambda>r. song_json env_no_match (fst r))
                                     [(example_song, None)]))\<rparr>"
proof -
  have r: "fst (download_multiple_songs env_no_match save_settings [] [example_song] example_world) =
     Inr [(example_song, None)]"
    by (simp add: batch_defs pipeline_defs example_defs env_no_match_def save_settings_def Let_def)
  then have h1: "download_multiple_songs env_no_match save_settings [] [example_song] example_world =
     (Inr [(example_song, None)],
      snd (download_multiple_songs env_no_match save_settings [] [example_song] example_world))"
    by (simp add: prod_eq_iff)
  have h2: "save_file save_settings = Some ''/save''" by (simp add: save_settings_def)
  have h3: "''/save'' \<noteq> []" by simp
  from save_file_holds_track_records[OF h1 h2 h3] r h2 show ?thesis by simp
qed

text \<open>
  C8 as it is stated fails. A batch of one song that fails (no audio match) and a batch
  of the same song that downloads leave the same save file: the array of the song's
  record, without \<open>null\<close> and without the output path; the document the specification
  describes pairs the record with \<open>null\<close>.
\<close>

theorem save_file_has_no_paths:
  "fst (download_multiple_songs env_no_match save_settings [] [example_song] example_world) =
     Inr [(example_song, None)]
   \<and> files (snd (download_multiple_songs env_no_match save_settings [] [example_song]
        example_world)) ''/save'' =
       Some \<lparr>st_mtime = 7, data = JsonDoc (JArr [JObj [(''url'', JStr ''sp/1'')]])\<rparr>
   \<and> manifest_as_specified env_no_match [(example_song, None)] =
       JArr [JArr [JObj [(''url'', JStr ''sp/1'')], JNull]]
   \<and> fst (download_multiple_songs example_env save_settings [] [example_song] example_world) =
     Inr [(example_song\<lparr>download_url := Some ''yt/v''\<rparr>, Some ''/m/A.mp3'')]
   \<and> files (snd (download_multiple_songs example_env save_settings [] [example_song]
        example_world)) ''/save'' =
       Some \<lparr>st_mtime = 7, data = JsonDoc (JArr [JObj [(''url'', JStr ''sp/1'')]])\<rparr>"
  by (simp add: batch_defs pipeline_defs example_defs env_no_match_def save_settings_def
        manifest_as_specified_def Let_def)

section \<open>The archive filter\<close>

lemma prepare_url:
  assumes "prepare env cfg song0 w0 = (Inr (song, output_file, dups), w)"
      and "keeps_url env cfg song0"
  shows "url song = url song0"
proof -
  define start where "start = (if name song0 = None \<and> url song0 \<noteq> []
            then (reinit_song env song0 (playlist_numbering cfg), emit (Reinit song0) w0)
            else (Inr song0, w0))"
  show ?thesis
  proof (cases "fst start")
    case (Inl e)
    with assms(1) show ?thesis
      by (auto simp: prepare_def start_def[symmetric] split: prod.splits)
  next
    case (Inr song1)
    with assms(2) have u1: "url song1 = url song0"
      by (auto simp: start_def keeps_url_def split: if_splits sum.splits)
    obtain r2 w2 where l: "search_lyrics env song1 (snd start) = (r2, w2)"
      by (cases "search_lyrics env song1 (snd start)")
    show ?thesis
    proof (cases r2)
      case (Inl e)
      with assms(1) Inr l show ?thesis
        by (auto simp: prepare_def start_def[symmetric] split: prod.splits)
    next
      case r2: (Inr found)
      define song' where "song' = (case found of None \<Rightarrow> song1
                            | Some l \<Rightarrow> song1\<lparr>song_lyrics := Some l\<rparr>)"
      have u2: "url song' = url song1" by (simp add: song'_def split: option.splits)
      from assms(1) Inr l r2 have "song = song'"
        by (auto simp: prepare_def start_def[symmetric] song'_def Let_def
              split: prod.splits sum.splits)
      with u1 u2 show ?thesis by simp
    qed
  qed
qed

lemma update_metadata_song:
  assumes "update_metadata env cfg song output_file dups w = (Inr (song1, p), w')"
  shows "song1 = song"
proof -
  obtain r2 w2 where R: "reconcile_duplicates env cfg output_file dups w = (r2, w2)"
    by (cases "reconcile_duplicates env cfg output_file dups w")
  show ?thesis
  proof (cases r2)
    case (Inl e)
    with R assms show ?thesis by (simp add: update_metadata_def)
  next
    case (Inr u)
    obtain r3 w3 where e: "embed env output_file song w2 = (r3, w3)"
      by (cases "embed env output_file song w2")
    from R Inr e assms show ?thesis
      by (cases r3) (simp_all add: update_metadata_def)
  qed
qed

lemma search_and_download_url:
  assumes "search_and_download env cfg song0 w0 = (Inr (song1, p), w')"
      and "keeps_url env cfg song0"
  shows "url song1 = url song0"
proof -
  obtain r w where pr: "prepare env cfg song0 w0 = (r, w)" by (cases "prepare env cfg song0 w0")
  show ?thesis
  proof (cases r)
    case (Inl e)
    with pr assms(1) show ?thesis by (simp add: search_and_download_def)
  next
    case (Inr x)
    obtain song out dups where x: "x = (song, out, dups)" by (cases x)
    from prepare_url[OF pr[unfolded Inr x] assms(2)] have u: "url song = url song0" .
    define skip where "skip = ((path_exists w out \<or> dups \<noteq> []) \<and> overwrite cfg = ''skip'')"
    define w1 where "w1 = (if (path_exists w out \<or> dups \<noteq> []) \<and> overwrite cfg = ''force''
                       then remove_duplicates env dups w else w)"
    define meta where "meta = ((path_exists w1 out \<or> dups \<noteq> []) \<and> overwrite cfg = ''metadata'')"
    have sad: "search_and_download env cfg song0 w0 =
       (if skip then (Inr (song, None), emit NotifyDownloadSkip w)
        else if meta then update_metadata env cfg song out dups w1
        else (case mkdir_parent env out of
                Some e \<Rightarrow> (Inl e, w1)
              | None \<Rightarrow> (case download env cfg song out w1 of
                          (Inl (exception, s1), w2) \<Rightarrow> on_exception s1 exception w2
                        | (Inr r, w2) \<Rightarrow> (Inr r, w2))))"
      unfolding search_and_download_def pr Inr x skip_def meta_def w1_def Let_def by simp
    show ?thesis
    proof (cases skip)
      case True
      with sad assms(1) u show ?thesis by simp
    next
      case noskip: False
      show ?thesis
      proof (cases meta)
        case True
        with sad noskip assms(1)
        have "update_metadata env cfg song out dups w1 = (Inr (song1, p), w')" by simp
        from update_metadata_song[OF this] u show ?thesis by simp
      next
        case nometa: False
        show ?thesis
        proof (cases "mkdir_parent env out")
          case (Some e)
          with sad noskip nometa assms(1) show ?thesis by simp
        next
          case None
          obtain r2 w2 where d: "download env cfg song out w1 = (r2, w2)"
            by (cases "download env cfg song out w1")
          from sad noskip nometa None d assms(1)
          have s: "(case r2 of Inl (exception, s1) \<Rightarrow> on_exception s1 exception w2
                    | Inr r \<Rightarrow> (Inr r, w2)) = (Inr (song1, p), w')"
            by (simp split: sum.splits prod.splits)
          from download_effect[OF d] s u show ?thesis
            by (cases r2) (auto simp: on_exception_def Let_def)
        qed
      qed
    qed
  qed
qed


text \<open>
  C4. With an archive configured, a call of \<open>download_multiple_songs\<close> that returns
  does exactly what the call without the archived songs in its input does (same results,
  same final state): no work is scheduled for a song whose URL is in the archive. The
  URLs of the results are, in order, the URLs of the songs that are not in the archive,
  so no result belongs to an archived song; this part needs that re-resolving a
  placeholder keeps its URL.
\<close>

theorem archived_songs_are_not_scheduled:
  assumes "truthy (archive cfg)"
      and "download_multiple_songs env cfg order songs0 w0 = (Inr results, w')"
      and "list_all (keeps_url env cfg) songs0"
  shows "download_multiple_songs env cfg order
           (filter (\<lambda>song. url song \<notin> url_archive w0) songs0) w0 = (Inr results, w')
         \<and> map (\<lambda>r. url (fst r)) results =
             map url (filter (\<lambda>song. url song \<notin> url_archive w0) songs0)
         \<and> list_all (\<lambda>r. url (fst r) \<notin> url_archive w0) results"
proof -
  let ?kept = "filter (\<lambda>song. url song \<notin> url_archive w0) songs0"
  from assms(1) have sch: "scheduled cfg w0 songs0 = ?kept"
    and sch2: "scheduled cfg w0 ?kept = ?kept"
    by (simp_all add: scheduled_def)
  have same: "download_multiple_songs env cfg order ?kept w0 =
              download_multiple_songs env cfg order songs0 w0"
    by (simp add: download_multiple_songs_def sch sch2)
  from download_multiple_songs_returns[OF assms(2)] sch obtain w1 where
    g: "gather env cfg order ?kept (emit (SetSongCount (length ?kept)) w0) = (Inr results, w1)"
    by auto
  from gather_results[OF g] have len: "length results = length ?kept"
    and each: "\<forall>i<length ?kept. \<exists>w1 w2.
            search_and_download env cfg (?kept ! i) w1 = (Inr (results ! i), w2)" by simp_all
  have urls: "map (\<lambda>r. url (fst r)) results = map url ?kept"
  proof (rule nth_equalityI)
    show "length (map (\<lambda>r. url (fst r)) results) = length (map url ?kept)" using len by simp
  next
    fix i assume "i < length (map (\<lambda>r. url (fst r)) results)"
    with len have i: "i < length ?kept" by simp
    with each obtain wa wb where
      sd: "search_and_download env cfg (?kept ! i) wa = (Inr (results ! i), wb)" by blast
    from i have "?kept ! i \<in> set songs0" by (metis nth_mem filter_is_subset subsetD)
    with assms(3) have k: "keeps_url env cfg (?kept ! i)" by (simp add: list_all_iff)
    from sd have "search_and_download env cfg (?kept ! i) wa =
        (Inr (fst (results ! i), snd (results ! i)), wb)" by simp
    from search_and_download_url[OF this k] i len
    show "map (\<lambda>r. url (fst r)) results ! i = map url ?kept ! i" by simp
  qed
  have "list_all (\<lambda>u. u \<notin> url_archive w0) (map url ?kept)"
    by (simp add: list_all_iff)
  with urls have "list_all (\<lambda>u. u \<notin> url_archive w0) (map (\<lambda>r. url (fst r)) results)" by simp
  then have "list_all (\<lambda>r. url (fst r) \<notin> url_archive w0) results"
    by (simp add: list_all_iff)
  with same assms(2) urls show ?thesis by simp
qed

theorem archived_songs_are_not_scheduled_witness:
  "truthy (archive archive_settings)
   \<and> url_archive world_with_archive = {''sp/1''}
   \<and> list_all (keeps_url example_env archive_settings) [example_song, other_song]
   \<and> filter (\<lambda>song. url song \<notin> url_archive world_with_archive) [example_song, other_song] =
       [other_song]
   \<and> fst (download_multiple_songs example_env archive_settings [] [example_song, other_song]
            world_with_archive) =
       Inr [(other_song\<lparr>download_url := Some ''yt/v''\<rparr>, Some ''/m/B.mp3'')]
   \<and> fst (download_multiple_songs example_env archive_settings [] [other_song]
            world_with_archive) =
       Inr [(other_song\<lparr>download_url := Some ''yt/v''\<rparr>, Some ''/m/B.mp3'')]
   \<and> list_all (\<lambda>r. url (fst r) \<notin> url_archive world_with_archive)
        [(other_song\<lparr>download_url := Some ''yt/v''\<rparr>, Some ''/m/B.mp3'')]"
proof -
  have h1: "truthy (archive archive_settings)"
    by (simp add: truthy_def archive_settings_def)
  have a: "url_archive world_with_archive = {''sp/1''}"
    by (simp add: world_with_archive_def example_defs)
  have f: "filter (\<lambda>song. url song \<notin> url_archive world_with_archive)
             [example_song, other_song] = [other_song]"
    by (simp add: a example_defs other_song_def)
  have r: "fst (download_multiple_songs example_env archive_settings [] [example_song, other_song]
            world_with_archive) =
       Inr [(other_song\<lparr>download_url := Some ''yt/v''\<rparr>, Some ''/m/B.mp3'')]"
    by (simp add: batch_defs pipeline_defs example_defs other_song_def archive_settings_def
          world_with_archive_def Let_def)
  then have h2: "download_multiple_songs example_env archive_settings [] [example_song, other_song]
            world_with_archive =
       (Inr [(other_song\<lparr>download_url := Some ''yt/v''\<rparr>, Some ''/m/B.mp3'')],
        snd (download_multiple_songs example_env archive_settings [] [example_song, other_song]
            world_with_archive))"
    by (simp add: prod_eq_iff)
  have h3: "list_all (keeps_url example_env archive_settings) [example_song, other_song]"
    by (simp add: keeps_url_def example_defs other_song_def)
  from archived_songs_are_not_scheduled[OF h1 h2 h3] h1 a h3 r show ?thesis
    unfolding f by simp
qed

end
